theory Spec2Isabelle
  imports Main
begin

section \<open>JavaScript values and the runtime primitives the handlers use\<close>

text \<open>
  The request bodies are parsed JSON and the tables come from the spreadsheet API, so a
  field or a cell is a JavaScript value. Numbers are IEEE doubles in the program; the type
  \<open>'n\<close> stands for them and is never inspected directly. What the handlers do with a
  number goes through the primitives of the record \<open>runtime\<close>, which are parameters of
  every definition below. Quantities, which the program obtains from \<open>parseInt\<close>,
  are integers or NaN: they are modelled as \<open>int option\<close> with \<open>None\<close> for NaN,
  which is exact for magnitudes below \<open>2^53\<close>. A value is \<open>undefined\<close>, \<open>null\<close>, a
  boolean, a number or a string; objects and arrays as field values are left out.
\<close>

datatype 'n jsval = JUndefined | JNull | JBool bool | JNum 'n | JStr string

record 'n runtime =
  rt_truthy_num :: "'n \<Rightarrow> bool"
  rt_string_of_num :: "'n \<Rightarrow> string"
  rt_parseFloat_str :: "string \<Rightarrow> 'n"
  rt_num_of_int :: "int option \<Rightarrow> 'n"
  rt_mul :: "'n \<Rightarrow> 'n \<Rightarrow> 'n"
  rt_toFixed2 :: "'n \<Rightarrow> string"

type_synonym qty = "int option"

text \<open>ToBoolean: what \<open>x || d\<close>, \<open>!x\<close> and \<open>x && y\<close> test.\<close>

fun truthy :: "'n runtime \<Rightarrow> 'n jsval \<Rightarrow> bool" where
  "truthy rt JUndefined = False"
| "truthy rt JNull = False"
| "truthy rt (JBool b) = b"
| "truthy rt (JNum x) = rt_truthy_num rt x"
| "truthy rt (JStr s) = (s \<noteq> [])"

definition js_or :: "'n runtime \<Rightarrow> 'n jsval \<Rightarrow> 'n jsval \<Rightarrow> 'n jsval" where
  "js_or rt a b = (if truthy rt a then a else b)"

text \<open>\<open>String(x)\<close>, also what a template literal and \<open>parseInt\<close> apply to a value.\<close>

fun to_string :: "'n runtime \<Rightarrow> 'n jsval \<Rightarrow> string" where
  "to_string rt JUndefined = ''undefined''"
| "to_string rt JNull = ''null''"
| "to_string rt (JBool b) = (if b then ''true'' else ''false'')"
| "to_string rt (JNum x) = rt_string_of_num rt x"
| "to_string rt (JStr s) = s"

text \<open>The numeric literal \<open>0\<close> of the source.\<close>

definition lit0 :: "'n runtime \<Rightarrow> 'n jsval" where
  "lit0 rt = JNum (rt_num_of_int rt (Some 0))"

subsection \<open>parseInt on strings\<close>

text \<open>
  \<open>parseInt\<close> with no radix: leading white space is skipped (here the ASCII white
  space), then an optional sign, then the prefix \<open>0x\<close> or \<open>0X\<close> selects radix 16,
  otherwise the radix is 10; the value is that of the longest run of digits, and NaN when
  there is none.
\<close>

definition is_ws :: "char \<Rightarrow> bool" where
  "is_ws c = (c \<in> set [CHR 0x09, CHR 0x0A, CHR 0x0B, CHR 0x0C, CHR 0x0D, CHR '' ''])"

definition digit_val :: "char \<Rightarrow> nat option" where
  "digit_val c =
     (let k = (of_char c :: nat) in
      if 48 \<le> k \<and> k \<le> 57 then Some (k - 48)
      else if 97 \<le> k \<and> k \<le> 102 then Some (k - 87)
      else if 65 \<le> k \<and> k \<le> 70 then Some (k - 55)
      else None)"

definition is_digit :: "nat \<Rightarrow> char \<Rightarrow> bool" where
  "is_digit radix c = (case digit_val c of None \<Rightarrow> False | Some d \<Rightarrow> d < radix)"

definition digits_value :: "nat \<Rightarrow> string \<Rightarrow> nat" where
  "digits_value radix z =
     foldl (\<lambda>a c. a * radix + (case digit_val c of Some d \<Rightarrow> d | None \<Rightarrow> 0)) 0 z"

definition parseInt_str :: "string \<Rightarrow> qty" where
  "parseInt_str s =
     (let s1 = dropWhile is_ws s;
          neg = (case s1 of c # _ \<Rightarrow> c = CHR ''-'' | [] \<Rightarrow> False);
          s2 = (case s1 of c # r \<Rightarrow> if c = CHR ''-'' \<or> c = CHR ''+'' then r else s1 | [] \<Rightarrow> s1);
          hex = (case s2 of a # b # _ \<Rightarrow> a = CHR ''0'' \<and> (b = CHR ''x'' \<or> b = CHR ''X'') | _ \<Rightarrow> False);
          radix = (if hex then 16 else 10);
          s3 = (if hex then drop 2 s2 else s2);
          z = takeWhile (is_digit radix) s3
      in if z = [] then None
         else Some ((if neg then - 1 else 1) * int (digits_value radix z)))"

definition parseInt :: "'n runtime \<Rightarrow> 'n jsval \<Rightarrow> qty" where
  "parseInt rt v = parseInt_str (to_string rt v)"

definition parseFloat :: "'n runtime \<Rightarrow> 'n jsval \<Rightarrow> 'n" where
  "parseFloat rt v = rt_parseFloat_str rt (to_string rt v)"

text \<open>\<open>x || 0\<close> on a number: \<open>NaN\<close> and zero give the literal \<open>0\<close>.\<close>

definition num_or0 :: "'n runtime \<Rightarrow> 'n \<Rightarrow> 'n" where
  "num_or0 rt x = (if rt_truthy_num rt x then x else rt_num_of_int rt (Some 0))"

subsection \<open>Quantities\<close>

definition qty_gt :: "qty \<Rightarrow> qty \<Rightarrow> bool" where
  "qty_gt a b = (case (a, b) of (Some x, Some y) \<Rightarrow> y < x | _ \<Rightarrow> False)"

definition qty_sub :: "qty \<Rightarrow> qty \<Rightarrow> qty" where
  "qty_sub a b = (case (a, b) of (Some x, Some y) \<Rightarrow> Some (x - y) | _ \<Rightarrow> None)"

fun dec_nat :: "nat \<Rightarrow> string" where
  "dec_nat n = (if n < 10 then [char_of (48 + n)] else dec_nat (n div 10) @ [char_of (48 + n mod 10)])"

definition string_of_qty :: "qty \<Rightarrow> string" where
  "string_of_qty q =
     (case q of None \<Rightarrow> ''NaN''
      | Some k \<Rightarrow> if k < 0 then CHR ''-'' # dec_nat (nat (- k)) else dec_nat (nat k))"

section \<open>Tables, store calls and their order\<close>

text \<open>
  A table is what \<open>spreadsheets.values.get\<close> returns: a list of rows, the header row
  first, each row a list of cells. The service leaves out trailing empty cells, so a row
  may be shorter than the header; reading past its end gives \<open>undefined\<close>, and an
  assignment past its end extends it.
\<close>

type_synonym 'n row = "'n jsval list"

definition cell_at :: "'n row \<Rightarrow> nat \<Rightarrow> 'n jsval" where
  "cell_at r i = (if i < length r then r ! i else JUndefined)"

definition set_cell :: "'n row \<Rightarrow> nat \<Rightarrow> 'n jsval \<Rightarrow> 'n row" where
  "set_cell r i v =
     (if i < length r then r[i := v] else r @ replicate (i - length r) JUndefined @ [v])"

text \<open>
  A range in A1 notation: \<open>Cell s c n\<close> is \<open>s!cn\<close> and \<open>RowSpan s a b n\<close> is
  \<open>s!an:bn\<close>. Every call that changes the spreadsheet is recorded, in the order the
  handler awaits it; a handler that throws keeps the calls it has already made. The
  calls themselves are taken to succeed.
\<close>

datatype a1range = Cell string char nat | RowSpan string char char nat

datatype 'n effect =
    EnsureSheet string "string list"
  | Append string "'n row"
  | Update a1range "'n row list"

text \<open>
  The source throws \<open>Error\<close> objects that differ only in their message. Each
  constructor is one message: \<open>Missing required fields\<close>,
  \<open>Item ID is required for non-bulk sales\<close>, \<open>Item ID not found in Inventory\<close>,
  \<open>Invalid quantitySold\<close>, \<open>Insufficient stock\<close> (single-item sale),
  \<open>Insufficient stock for <name> - <flavor>\<close> (bulk sale), \<open>Loan not found\<close>,
  \<open>Product not found\<close>,
  \<open>Insufficient inventory. Available: <n>, Requested: <m>\<close> (warranty claim) and
  \<open>Item not found\<close> (\<open>updateItem\<close>).
\<close>

datatype error =
    MissingRequiredFields
  | ItemIdRequired
  | ItemNotFound
  | InvalidQuantitySold
  | InsufficientStock
  | InsufficientStockFor string string
  | LoanNotFound
  | ProductNotFound
  | InsufficientInventory int int
  | ItemMissing

datatype response = SaleOk string | SaleOkQty string qty

section \<open>server.js: the recordSale handler\<close>

text \<open>
  The \<open>sale\<close> object of the request body. Every field may be missing
  (\<open>undefined\<close>); \<open>bulkItems\<close> is absent or an array of \<open>{itemId, qty}\<close> objects.
\<close>

record 'n bulk_item =
  bi_itemId :: "'n jsval"
  bi_qty :: "'n jsval"

record 'n sale =
  itemId :: "'n jsval"
  quantitySold :: "'n jsval"
  pricePerUnit :: "'n jsval"
  appliedPrice :: "'n jsval"
  paymentMethod :: "'n jsval"
  customer :: "'n jsval"
  date :: "'n jsval"
  sale_notes :: "'n jsval"
  saleType :: "'n jsval"
  bulkItems :: "'n bulk_item list option"

definition sales_headers :: "string list" where
  "sales_headers = [''Sale ID'', ''Item ID'', ''Item Name'', ''Category'', ''Quantity Sold'',
     ''Price Per Unit'', ''Total'', ''Date'', ''Customer'', ''Sale Type'', ''Payment Method'', ''Notes'']"

definition loans_headers :: "string list" where
  "loans_headers = [''Loan ID'', ''Sale ID'', ''Customer'', ''Item Name'', ''Amount'',
     ''Date Issued'', ''Due Date'', ''Status'', ''Date Paid'', ''Notes'']"

text \<open>
  The search loop of both branches: from index \<open>1\<close> (index \<open>0\<close> is the header), the
  first row whose first cell is truthy and has the string form of the wanted identifier.
\<close>

fun find_in :: "'n runtime \<Rightarrow> 'n row list \<Rightarrow> 'n jsval \<Rightarrow> nat \<Rightarrow> nat option" where
  "find_in rt [] wanted i = None"
| "find_in rt (r # rs) wanted i =
     (if truthy rt (cell_at r 0) \<and> to_string rt (cell_at r 0) = to_string rt wanted
      then Some i else find_in rt rs wanted (Suc i))"

definition find_item_row :: "'n runtime \<Rightarrow> 'n row list \<Rightarrow> 'n jsval \<Rightarrow> nat option" where
  "find_item_row rt vals wanted = find_in rt (drop 1 vals) wanted 1"

definition existing_qty :: "'n runtime \<Rightarrow> 'n row \<Rightarrow> qty" where
  "existing_qty rt itemRow = parseInt rt (js_or rt (cell_at itemRow 5) (JStr ''0''))"

definition qty_update :: "nat \<Rightarrow> qty \<Rightarrow> 'n effect" where
  "qty_update foundIndex newQty =
     Update (Cell ''Inventory'' CHR ''F'' (foundIndex + 1)) [[JStr (string_of_qty newQty)]]"

text \<open>
  The values both branches compute before they build their rows: the total is the
  product of the applied price and the quantity sold, rendered by \<open>toFixed(2)\<close>; the
  date and the notes fall back to today and to the empty string.
\<close>

definition sale_total :: "'n runtime \<Rightarrow> 'n \<Rightarrow> qty \<Rightarrow> string" where
  "sale_total rt price sellQty = rt_toFixed2 rt (rt_mul rt price (rt_num_of_int rt sellQty))"

definition sale_date :: "'n runtime \<Rightarrow> string \<Rightarrow> 'n sale \<Rightarrow> 'n jsval" where
  "sale_date rt today s = js_or rt (date s) (JStr today)"

definition loan_row ::
  "'n runtime \<Rightarrow> 'n sale \<Rightarrow> string \<Rightarrow> 'n jsval \<Rightarrow> string \<Rightarrow> 'n jsval \<Rightarrow> 'n row" where
  "loan_row rt s saleId itemName total_str dt =
     [JStr (''LOAN-'' @ saleId), JStr saleId, js_or rt (customer s) (JStr ''Unknown Customer''),
      itemName, JStr total_str, dt, JStr '''', JStr ''Unpaid'', JStr '''',
      js_or rt (sale_notes s) (JStr '''')]"

subsection \<open>The bulk branch (server.js, lines 261 to 353)\<close>

definition bulk_price :: "'n runtime \<Rightarrow> 'n sale \<Rightarrow> 'n" where
  "bulk_price rt s = num_or0 rt (parseFloat rt (js_or rt (appliedPrice s) (lit0 rt)))"

definition bulk_sell_qty :: "'n runtime \<Rightarrow> 'n sale \<Rightarrow> qty" where
  "bulk_sell_qty rt s = parseInt rt (js_or rt (quantitySold s) (lit0 rt))"

definition bulk_item_name :: "nat \<Rightarrow> 'n jsval" where
  "bulk_item_name n = JStr (''Bulk Sale ('' @ dec_nat n @ '' flavors)'')"

definition bulk_sale_row :: "'n runtime \<Rightarrow> string \<Rightarrow> string \<Rightarrow> 'n sale \<Rightarrow> nat \<Rightarrow> 'n row" where
  "bulk_sale_row rt saleId today s n =
     [JStr saleId, JStr ''BULK'', bulk_item_name n, JStr ''Bulk'',
      JNum (rt_num_of_int rt (bulk_sell_qty rt s)), JNum (bulk_price rt s),
      JStr (sale_total rt (bulk_price rt s) (bulk_sell_qty rt s)), sale_date rt today s,
      js_or rt (customer s) (JStr ''''), js_or rt (saleType s) (JStr ''bulk''),
      js_or rt (paymentMethod s) (JStr ''Cash''), js_or rt (sale_notes s) (JStr '''')]"

definition bulk_loan_row :: "'n runtime \<Rightarrow> string \<Rightarrow> string \<Rightarrow> 'n sale \<Rightarrow> nat \<Rightarrow> 'n row" where
  "bulk_loan_row rt saleId today s n =
     loan_row rt s saleId (bulk_item_name n)
       (sale_total rt (bulk_price rt s) (bulk_sell_qty rt s)) (sale_date rt today s)"

text \<open>
  The loop over \<open>sale.bulkItems\<close>. It works on the handler's local copy of the table
  and writes each new quantity back into it, so a later line for the same item sees the
  earlier decrement. The result is the calls made, the error that ended the loop (if any)
  and the local table at that point.
\<close>

fun bulk_loop ::
  "'n runtime \<Rightarrow> 'n row list \<Rightarrow> 'n bulk_item list \<Rightarrow> 'n effect list \<times> error option \<times> 'n row list" where
  "bulk_loop rt vals [] = ([], None, vals)"
| "bulk_loop rt vals (b # bs) =
     (let qtyToDeduct = parseInt rt (js_or rt (bi_qty b) (lit0 rt)) in
      case find_item_row rt vals (bi_itemId b) of
        None \<Rightarrow> bulk_loop rt vals bs
      | Some foundIndex \<Rightarrow>
          (let itemRow = vals ! foundIndex;
               existingQty = existing_qty rt itemRow
           in if qty_gt qtyToDeduct existingQty
              then ([], Some (InsufficientStockFor (to_string rt (cell_at itemRow 2))
                                                   (to_string rt (cell_at itemRow 4))), vals)
              else (let newQty = qty_sub existingQty qtyToDeduct;
                        vals' = vals[foundIndex := set_cell itemRow 5 (JStr (string_of_qty newQty))]
                    in case bulk_loop rt vals' bs of
                         (effs, res) \<Rightarrow> (qty_update foundIndex newQty # effs, res))))"

text \<open>
  The sale row is appended first, then the loan row when the payment method is
  \<open>'Loan'\<close>, then the loop runs; an error thrown by the loop leaves the appended rows
  and the quantity updates already made.
\<close>

definition bulk_records :: "'n runtime \<Rightarrow> string \<Rightarrow> string \<Rightarrow> 'n sale \<Rightarrow> nat \<Rightarrow> 'n effect list" where
  "bulk_records rt saleId today s n =
     Append ''Sales'' (bulk_sale_row rt saleId today s n)
       # (if paymentMethod s = JStr ''Loan''
          then [Append ''Loans'' (bulk_loan_row rt saleId today s n)] else [])"

definition bulk_sale ::
  "'n runtime \<Rightarrow> string \<Rightarrow> string \<Rightarrow> 'n sale \<Rightarrow> 'n bulk_item list \<Rightarrow> 'n row list
     \<Rightarrow> 'n effect list \<times> (error + response)" where
  "bulk_sale rt now today s items vals =
     (let saleId = now;
          records = bulk_records rt saleId today s (length items)
      in case bulk_loop rt vals items of
           (effs, Some e, _) \<Rightarrow> (records @ effs, Inl e)
         | (effs, None, _) \<Rightarrow> (records @ effs, Inr (SaleOk saleId)))"

subsection \<open>The single-item branch (server.js, lines 355 to 452)\<close>

definition single_price :: "'n runtime \<Rightarrow> 'n sale \<Rightarrow> 'n row \<Rightarrow> 'n" where
  "single_price rt s itemRow =
     num_or0 rt (parseFloat rt
       (js_or rt (js_or rt (js_or rt (appliedPrice s) (pricePerUnit s)) (cell_at itemRow 6))
          (lit0 rt)))"

definition single_sale_row ::
  "'n runtime \<Rightarrow> string \<Rightarrow> string \<Rightarrow> 'n sale \<Rightarrow> 'n row \<Rightarrow> qty \<Rightarrow> 'n row" where
  "single_sale_row rt saleId today s itemRow sellQty =
     [JStr saleId, itemId s, js_or rt (cell_at itemRow 2) (JStr ''''),
      js_or rt (cell_at itemRow 1) (JStr ''''),
      JNum (rt_num_of_int rt sellQty), JNum (single_price rt s itemRow),
      JStr (sale_total rt (single_price rt s itemRow) sellQty), sale_date rt today s,
      js_or rt (customer s) (JStr ''''), js_or rt (saleType s) (JStr ''retail''),
      js_or rt (paymentMethod s) (JStr ''Cash''), js_or rt (sale_notes s) (JStr '''')]"

definition single_loan_row ::
  "'n runtime \<Rightarrow> string \<Rightarrow> string \<Rightarrow> 'n sale \<Rightarrow> 'n row \<Rightarrow> qty \<Rightarrow> 'n row" where
  "single_loan_row rt saleId today s itemRow sellQty =
     loan_row rt s saleId (js_or rt (cell_at itemRow 2) (JStr ''''))
       (sale_total rt (single_price rt s itemRow) sellQty) (sale_date rt today s)"

definition single_records ::
  "'n runtime \<Rightarrow> string \<Rightarrow> string \<Rightarrow> 'n sale \<Rightarrow> 'n row \<Rightarrow> qty \<Rightarrow> 'n effect list" where
  "single_records rt saleId today s itemRow sellQty =
     Append ''Sales'' (single_sale_row rt saleId today s itemRow sellQty)
       # (if js_or rt (paymentMethod s) (JStr ''Cash'') = JStr ''Loan''
          then [Append ''Loans'' (single_loan_row rt saleId today s itemRow sellQty)] else [])"

definition single_sale ::
  "'n runtime \<Rightarrow> string \<Rightarrow> string \<Rightarrow> 'n sale \<Rightarrow> 'n row list
     \<Rightarrow> 'n effect list \<times> (error + response)" where
  "single_sale rt now today s vals =
     (if \<not> truthy rt (itemId s) then ([], Inl ItemIdRequired)
      else case find_item_row rt vals (itemId s) of
        None \<Rightarrow> ([], Inl ItemNotFound)
      | Some foundIndex \<Rightarrow>
          (let itemRow = vals ! foundIndex;
               existingQty = existing_qty rt itemRow;
               sellQty = parseInt rt (js_or rt (quantitySold s) (lit0 rt))
           in if (case sellQty of None \<Rightarrow> True | Some q \<Rightarrow> q \<le> 0) then ([], Inl InvalidQuantitySold)
              else if qty_gt sellQty existingQty then ([], Inl InsufficientStock)
              else
                (let newQty = qty_sub existingQty sellQty;
                     saleId = now
                 in (single_records rt saleId today s itemRow sellQty
                       @ [qty_update foundIndex newQty],
                     Inr (SaleOkQty saleId newQty)))))"

subsection \<open>The handler (server.js, lines 235 to 458)\<close>

text \<open>
  \<open>spreadsheetId\<close> and \<open>sale\<close> are the two fields of the request body
  (\<open>sale_opt\<close> is \<open>None\<close> when the body has no sale object); \<open>vals\<close> is the
  Inventory table the handler loads after it has made sure the Sales and Loans sheets
  exist. \<open>now\<close> is \<open>Date.now().toString()\<close> and \<open>today\<close> the first ten characters
  of the current ISO date.
\<close>

definition ensured :: "'n effect list" where
  "ensured = [EnsureSheet ''Sales'' sales_headers, EnsureSheet ''Loans'' loans_headers]"

definition recordSale ::
  "'n runtime \<Rightarrow> string \<Rightarrow> string \<Rightarrow> 'n jsval \<Rightarrow> 'n sale option \<Rightarrow> 'n row list
     \<Rightarrow> 'n effect list \<times> (error + response)" where
  "recordSale rt now today spreadsheetId sale_opt vals =
     (case sale_opt of
        None \<Rightarrow> ([], Inl MissingRequiredFields)
      | Some s \<Rightarrow>
          if \<not> truthy rt spreadsheetId then ([], Inl MissingRequiredFields)
          else
            (let (effs, res) =
                   (case bulkItems s of
                      Some (b # bs) \<Rightarrow> bulk_sale rt now today s (b # bs) vals
                    | _ \<Rightarrow> single_sale rt now today s vals)
             in (ensured @ effs, res)))"

section \<open>The browser side: inventory cache, warranty claims, loans\<close>

text \<open>
  The browser script is the file part_002 of the sources; it holds two copies of the
  application, and the definitions follow the first one (\<open>getItemById\<close> at line 13,
  \<open>updateItem\<close> at 148, \<open>updateQuantity\<close> at 189, \<open>markLoanAsPaid\<close> at 1826,
  \<open>processClaim\<close> at 2093).
  \<open>InventoryManager.items\<close> is the cache of the Inventory data rows, without the
  header row, as \<open>fetchData\<close> returned them at the last load. Identifiers that come from
  the page (the value of a select element, the argument of an \<open>onclick\<close> handler) are
  strings, and the lookups compare with \<open>===\<close>.
\<close>

fun findIndex_id :: "'n row list \<Rightarrow> string \<Rightarrow> nat \<Rightarrow> nat option" where
  "findIndex_id [] wanted i = None"
| "findIndex_id (r # rs) wanted i =
     (if cell_at r 0 = JStr wanted then Some i else findIndex_id rs wanted (Suc i))"

definition getItemById :: "'n row list \<Rightarrow> string \<Rightarrow> 'n row option" where
  "getItemById items wanted = find (\<lambda>item. cell_at item 0 = JStr wanted) items"

record 'n item_data =
  ud_category :: "'n jsval"
  ud_itemName :: "'n jsval"
  ud_version :: "'n jsval"
  ud_flavor :: "'n jsval"
  ud_quantity :: "'n jsval"
  ud_price :: "'n jsval"
  ud_dateAdded :: "'n jsval"
  ud_notes :: "'n jsval"
  ud_cost :: "'n jsval"

text \<open>
  \<open>updateItem\<close> writes columns A to J of the item's sheet row (\<open>itemIndex + 2\<close>: the
  header is row 1 and the cache starts at 0) and replaces the cached row.
\<close>

definition item_row :: "'n runtime \<Rightarrow> string \<Rightarrow> 'n item_data \<Rightarrow> 'n row" where
  "item_row rt wanted d =
     [JStr wanted, ud_category d, ud_itemName d, ud_version d,
      js_or rt (ud_flavor d) (JStr ''''), ud_quantity d, ud_price d,
      ud_dateAdded d, js_or rt (ud_notes d) (JStr ''''), js_or rt (ud_cost d) (JStr '''')]"

definition updateItem ::
  "'n runtime \<Rightarrow> string \<Rightarrow> 'n item_data \<Rightarrow> 'n row list
     \<Rightarrow> 'n effect list \<times> (error + bool) \<times> 'n row list" where
  "updateItem rt wanted d items =
     (case findIndex_id items wanted 0 of
        None \<Rightarrow> ([], Inl ItemMissing, items)
      | Some itemIndex \<Rightarrow>
          (let newRow = item_row rt wanted d;
               rowNumber = itemIndex + 2
           in ([Update (RowSpan ''Inventory'' CHR ''A'' CHR ''J'' rowNumber) [newRow]],
               Inr True, items[itemIndex := newRow])))"

definition quantity_data :: "'n row \<Rightarrow> 'n jsval \<Rightarrow> 'n item_data" where
  "quantity_data item newQuantity =
     \<lparr> ud_category = cell_at item 1, ud_itemName = cell_at item 2,
       ud_version = cell_at item 3, ud_flavor = cell_at item 4,
       ud_quantity = newQuantity, ud_price = cell_at item 6,
       ud_dateAdded = cell_at item 7, ud_notes = cell_at item 8,
       ud_cost = cell_at item 9 \<rparr>"

definition updateQuantity ::
  "'n runtime \<Rightarrow> string \<Rightarrow> 'n jsval \<Rightarrow> 'n row list
     \<Rightarrow> 'n effect list \<times> (error + bool) \<times> 'n row list" where
  "updateQuantity rt wanted newQuantity items =
     (case getItemById items wanted of
        None \<Rightarrow> ([], Inr False, items)
      | Some item \<Rightarrow> updateItem rt wanted (quantity_data item newQuantity) items)"

subsection \<open>WarrantyManager.processClaim\<close>

record 'n claim_data =
  cd_itemId :: string
  cd_quantity :: "'n jsval"
  cd_date :: "'n jsval"
  cd_reason :: "'n jsval"
  cd_customer :: "'n jsval"
  cd_notes :: "'n jsval"

text \<open>\<open>parseInt(x) || 0\<close>: NaN becomes \<open>0\<close>.\<close>

definition int_or0 :: "qty \<Rightarrow> int" where
  "int_or0 q = (case q of None \<Rightarrow> 0 | Some k \<Rightarrow> k)"

definition current_qty :: "'n runtime \<Rightarrow> 'n row \<Rightarrow> int" where
  "current_qty rt product = int_or0 (parseInt rt (cell_at product 5))"

definition replace_qty :: "'n runtime \<Rightarrow> 'n claim_data \<Rightarrow> int" where
  "replace_qty rt c = int_or0 (parseInt rt (cd_quantity c))"

definition claim_row :: "'n runtime \<Rightarrow> string \<Rightarrow> 'n claim_data \<Rightarrow> 'n row \<Rightarrow> 'n row" where
  "claim_row rt claimId c product =
     [JStr claimId, cd_date c, JStr (cd_itemId c), cell_at product 2,
      JNum (rt_num_of_int rt (Some (replace_qty rt c))), cd_reason c,
      js_or rt (cd_customer c) (JStr ''''), js_or rt (cd_notes c) (JStr ''''),
      JStr ''Completed'']"

datatype claim_response = ClaimOk string string

definition claim_message :: "int \<Rightarrow> string" where
  "claim_message replaceQty =
     ''Warranty claim processed. '' @ string_of_qty (Some replaceQty) @ '' units replaced.''"

text \<open>
  The product is looked up in the cache, not in a fresh copy of the sheet. The claim row
  is appended before the inventory row is rewritten.
\<close>

definition processClaim ::
  "'n runtime \<Rightarrow> string \<Rightarrow> 'n claim_data \<Rightarrow> 'n row list
     \<Rightarrow> 'n effect list \<times> (error + claim_response) \<times> 'n row list" where
  "processClaim rt now c items =
     (case getItemById items (cd_itemId c) of
        None \<Rightarrow> ([], Inl ProductNotFound, items)
      | Some product \<Rightarrow>
          (let currentQty = current_qty rt product;
               replaceQty = replace_qty rt c
           in if currentQty < replaceQty
              then ([], Inl (InsufficientInventory currentQty replaceQty), items)
              else
                (let claimId = now;
                     rowData = claim_row rt claimId c product;
                     newQuantity = currentQty - replaceQty
                 in case updateQuantity rt (cd_itemId c)
                           (JNum (rt_num_of_int rt (Some newQuantity))) items of
                      (effs, Inl e, items') \<Rightarrow> (Append ''Warranty'' rowData # effs, Inl e, items')
                    | (effs, Inr _, items') \<Rightarrow>
                        (Append ''Warranty'' rowData # effs,
                         Inr (ClaimOk claimId (claim_message replaceQty)), items'))))"


subsection \<open>InventoryUI.markLoanAsPaid\<close>

text \<open>
  \<open>confirmed\<close> is the answer to the confirmation dialog, \<open>today\<close> the first ten
  characters of the current ISO date, \<open>loans\<close> the data rows of the Loans sheet as
  fetched by this call. An error is shown to the user, not rethrown; the result says
  which message was shown (\<open>Inr False\<close>: the dialog was dismissed and nothing happened).
\<close>

definition markLoanAsPaid ::
  "bool \<Rightarrow> string \<Rightarrow> string \<Rightarrow> 'n row list \<Rightarrow> 'n effect list \<times> (error + bool)" where
  "markLoanAsPaid confirmed today loanId loans =
     (if \<not> confirmed then ([], Inr False)
      else case findIndex_id loans loanId 0 of
        None \<Rightarrow> ([], Inl LoanNotFound)
      | Some loanIndex \<Rightarrow>
          (let loanRow = set_cell (set_cell (loans ! loanIndex) 7 (JStr ''Paid'')) 8 (JStr today);
               rowNumber = loanIndex + 2
           in ([Update (RowSpan ''Loans'' CHR ''H'' CHR ''I'' rowNumber)
                  [[cell_at loanRow 7, cell_at loanRow 8]]],
               Inr True)))"

section \<open>The spreadsheet as the handlers address it\<close>

text \<open>
  The spreadsheet service is not part of the repository. To follow a value from one call
  to the next read, its two write calls are read the way the source's comments do: a
  sheet is its list of rows with the header as row 1, an append adds a row at the end,
  and a range update overwrites the cells from the range's first column on, in the row
  with that number, leaving a cell as it is where the value sent is \<open>null\<close> (which is
  what \<open>undefined\<close> becomes in the request). The sheets are taken to exist already, so
  making sure that one exists changes nothing. \<open>fetchData\<close> returns the rows after the
  header.
\<close>

definition col_index :: "char \<Rightarrow> nat" where
  "col_index c = of_char c - 65"

fun skipped :: "'n jsval \<Rightarrow> bool" where
  "skipped JUndefined = True"
| "skipped JNull = True"
| "skipped v = False"

fun write_cells :: "'n row \<Rightarrow> nat \<Rightarrow> 'n jsval list \<Rightarrow> 'n row" where
  "write_cells r c [] = r"
| "write_cells r c (v # vs) = write_cells (if skipped v then r else set_cell r c v) (Suc c) vs"

definition set_row :: "'n row list \<Rightarrow> nat \<Rightarrow> 'n row \<Rightarrow> 'n row list" where
  "set_row t i r = (if i < length t then t[i := r] else t @ replicate (i - length t) [] @ [r])"

definition row_at :: "'n row list \<Rightarrow> nat \<Rightarrow> 'n row" where
  "row_at t i = (if i < length t then t ! i else [])"

fun write_rows :: "'n row list \<Rightarrow> nat \<Rightarrow> nat \<Rightarrow> 'n row list \<Rightarrow> 'n row list" where
  "write_rows t i c [] = t"
| "write_rows t i c (vs # rest) = write_rows (set_row t i (write_cells (row_at t i) c vs)) (Suc i) c rest"

fun apply_effect :: "string \<Rightarrow> 'n effect \<Rightarrow> 'n row list \<Rightarrow> 'n row list" where
  "apply_effect sheet (EnsureSheet sh hs) t = t"
| "apply_effect sheet (Append sh r) t = (if sh = sheet then t @ [r] else t)"
| "apply_effect sheet (Update (Cell sh c n) vs) t =
     (if sh = sheet \<and> 0 < n then write_rows t (n - 1) (col_index c) vs else t)"
| "apply_effect sheet (Update (RowSpan sh a b n) vs) t =
     (if sh = sheet \<and> 0 < n then write_rows t (n - 1) (col_index a) vs else t)"

definition apply_effects :: "string \<Rightarrow> 'n effect list \<Rightarrow> 'n row list \<Rightarrow> 'n row list" where
  "apply_effects sheet effs t = foldl (\<lambda>t e. apply_effect sheet e t) t effs"

definition fetchData :: "'n row list \<Rightarrow> 'n row list" where
  "fetchData t = drop 1 t"

text \<open>
  The Loans sheet after one call of \<open>markLoanAsPaid\<close>: the call fetches the sheet's data
  rows and its range update is applied to the sheet.
\<close>

definition loans_after_mark :: "bool \<Rightarrow> string \<Rightarrow> string \<Rightarrow> 'n row list \<Rightarrow> 'n row list" where
  "loans_after_mark confirmed today loanId sheet =
     apply_effects ''Loans'' (fst (markLoanAsPaid confirmed today loanId (fetchData sheet))) sheet"

text \<open>What the range update of \<open>markLoanAsPaid\<close> makes of a Loans row on the date \<open>d\<close>.\<close>

definition paid_row :: "'n row \<Rightarrow> string \<Rightarrow> 'n row" where
  "paid_row r d = write_cells r 7 [JStr ''Paid'', JStr d]"

section \<open>Reading a trace\<close>

fun is_update :: "'n effect \<Rightarrow> bool" where
  "is_update (Update r vs) = True"
| "is_update e = False"

fun is_append_to :: "string \<Rightarrow> 'n effect \<Rightarrow> bool" where
  "is_append_to sheet (Append sh r) = (sh = sheet)"
| "is_append_to sheet e = False"

fun is_write :: "'n effect \<Rightarrow> bool" where
  "is_write (EnsureSheet sh hs) = False"
| "is_write e = True"

definition nonneg_qty :: "qty \<Rightarrow> bool" where
  "nonneg_qty k = (case k of None \<Rightarrow> True | Some m \<Rightarrow> 0 \<le> m)"

text \<open>
  A Sales row reconciles when its Total cell is the two-decimal rendering of the product
  of its Price Per Unit cell and its Quantity Sold cell. A Loans row matches a Sales row
  when it refers to that sale, carries its total as the amount and is unpaid.
\<close>

definition total_reconciles :: "'n runtime \<Rightarrow> 'n row \<Rightarrow> bool" where
  "total_reconciles rt r =
     (case (cell_at r 4, cell_at r 5) of
        (JNum qn, JNum price) \<Rightarrow> cell_at r 6 = JStr (rt_toFixed2 rt (rt_mul rt price qn))
      | _ \<Rightarrow> False)"

definition loan_matches_sale :: "'n row \<Rightarrow> 'n row \<Rightarrow> bool" where
  "loan_matches_sale lr saleRow =
     (cell_at lr 1 = cell_at saleRow 0 \<and> cell_at lr 4 = cell_at saleRow 6
      \<and> cell_at lr 7 = JStr ''Unpaid'' \<and> cell_at lr 8 = JStr [])"

section \<open>A runtime on whole numbers, for evaluating the model\<close>

text \<open>
  To run the model on a concrete request the primitives need values. This
  interpretation takes the numbers to be the integers and NaN. It agrees with the
  JavaScript runtime wherever every number involved is a whole number below \<open>2^53\<close>
  and every numeric string is a plain decimal integer; it is only used on such inputs.
\<close>

definition parseDecimal_str :: "string \<Rightarrow> qty" where
  "parseDecimal_str s =
     (let s1 = dropWhile is_ws s;
          neg = (case s1 of c # _ \<Rightarrow> c = CHR ''-'' | [] \<Rightarrow> False);
          s2 = (case s1 of c # r \<Rightarrow> if c = CHR ''-'' \<or> c = CHR ''+'' then r else s1 | [] \<Rightarrow> s1);
          z = takeWhile (is_digit 10) s2
      in if z = [] then None
         else Some ((if neg then - 1 else 1) * int (digits_value 10 z)))"

definition int_runtime :: "qty runtime" where
  "int_runtime =
     \<lparr> rt_truthy_num = (\<lambda>x. case x of None \<Rightarrow> False | Some k \<Rightarrow> k \<noteq> 0),
       rt_string_of_num = string_of_qty,
       rt_parseFloat_str = parseDecimal_str,
       rt_num_of_int = (\<lambda>q. q),
       rt_mul = (\<lambda>a b. case (a, b) of (Some x, Some y) \<Rightarrow> Some (x * y) | _ \<Rightarrow> None),
       rt_toFixed2 = (\<lambda>x. case x of None \<Rightarrow> ''NaN'' | Some k \<Rightarrow> string_of_qty (Some k) @ ''.00'') \<rparr>"

definition no_sale :: "qty sale" where
  "no_sale = \<lparr> itemId = JUndefined, quantitySold = JUndefined, pricePerUnit = JUndefined,
                appliedPrice = JUndefined, paymentMethod = JUndefined, customer = JUndefined,
                date = JUndefined, sale_notes = JUndefined, saleType = JUndefined,
                bulkItems = None \<rparr>"

definition demo_inventory :: "qty row list" where
  "demo_inventory =
     [map JStr [''ID'', ''Category'', ''Item Name'', ''Version'', ''Flavor'', ''Quantity'', ''Price''],
      map JStr [''101'', ''Juice'', ''Cloud'', ''v1'', ''Mango'', ''10'', ''50''],
      map JStr [''102'', ''Juice'', ''Cloud'', ''v1'', ''Grape'', ''4'', ''50'']]"

text \<open>Requests against \<open>demo_inventory\<close>: item 101 has 10 in stock, item 102 has 4.\<close>

definition demo_retail :: "qty sale" where
  "demo_retail = no_sale\<lparr>itemId := JStr ''101'', quantitySold := JStr ''3''\<rparr>"

definition demo_retail_loan :: "qty sale" where
  "demo_retail_loan = demo_retail\<lparr>paymentMethod := JStr ''Loan'', customer := JStr ''Ana''\<rparr>"

definition demo_bulk :: "qty bulk_item list \<Rightarrow> qty sale" where
  "demo_bulk lines = no_sale\<lparr>quantitySold := JNum (Some 5), appliedPrice := JNum (Some 50),
                               bulkItems := Some lines\<rparr>"

definition line :: "string \<Rightarrow> int \<Rightarrow> qty bulk_item" where
  "line ident n = \<lparr>bi_itemId = JStr ident, bi_qty = JNum (Some n)\<rparr>"

definition run_demo :: "qty sale \<Rightarrow> qty effect list \<times> (error + response)" where
  "run_demo s = recordSale int_runtime ''1700000000000'' ''2024-05-01'' (JStr ''sheet'') (Some s)
                  demo_inventory"

text \<open>The handler's local table after the first line of a bulk sale took 3 of item 101.\<close>

definition demo_inventory_after_101 :: "qty row list" where
  "demo_inventory_after_101 =
     [map JStr [''ID'', ''Category'', ''Item Name'', ''Version'', ''Flavor'', ''Quantity'', ''Price''],
      map JStr [''101'', ''Juice'', ''Cloud'', ''v1'', ''Mango'', ''7'', ''50''],
      map JStr [''102'', ''Juice'', ''Cloud'', ''v1'', ''Grape'', ''4'', ''50'']]"

text \<open>The cache after loading \<open>demo_inventory\<close>, and a claim for 2 of item 102.\<close>

definition demo_items :: "qty row list" where
  "demo_items = fetchData demo_inventory"

definition demo_claim :: "string \<Rightarrow> qty claim_data" where
  "demo_claim n = \<lparr> cd_itemId = ''102'', cd_quantity = JStr n, cd_date = JStr ''2024-05-02'',
                     cd_reason = JStr ''leak'', cd_customer = JStr '''', cd_notes = JStr '''' \<rparr>"

text \<open>
  A later sale of 3 of item 102, and the Inventory sheet after it: the sheet has 1 of item
  102 left while a cache loaded before the sale still shows 4.
\<close>

definition demo_sale_102 :: "qty sale" where
  "demo_sale_102 = no_sale\<lparr>itemId := JStr ''102'', quantitySold := JStr ''3''\<rparr>"

definition demo_inventory_later :: "qty row list" where
  "demo_inventory_later =
     [map JStr [''ID'', ''Category'', ''Item Name'', ''Version'', ''Flavor'', ''Quantity'', ''Price''],
      map JStr [''101'', ''Juice'', ''Cloud'', ''v1'', ''Mango'', ''10'', ''50''],
      map JStr [''102'', ''Juice'', ''Cloud'', ''v1'', ''Grape'', ''1'', ''50'']]"

text \<open>A Loans sheet with two unpaid loans; the first row has no Date Paid cell yet.\<close>

definition demo_loans :: "qty row list" where
  "demo_loans =
     [map JStr loans_headers,
      map JStr [''LOAN-1'', ''1'', ''Ana'', ''Cloud'', ''150.00'', ''2024-05-01'', '''', ''Unpaid''],
      map JStr [''LOAN-2'', ''2'', ''Ben'', ''Cloud'', ''50.00'', ''2024-05-01'', '''', ''Unpaid'', '''',
                ''cash on Friday'']]"

section \<open>Facts about the search loop\<close>

lemma find_in_bounds: "find_in rt rs wanted k = Some i \<Longrightarrow> k \<le> i \<and> i < k + length rs"
  by (induction rs arbitrary: k) (fastforce split: if_splits)+

lemma find_item_row_bounds:
  "find_item_row rt vals wanted = Some i \<Longrightarrow> 1 \<le> i \<and> i < length vals"
  using find_in_bounds [of rt "drop 1 vals" wanted 1 i] by (auto simp: find_item_row_def)

section \<open>Facts about range writes\<close>

lemma cell_at_set_cell: "cell_at (set_cell r i v) j = (if j = i then v else cell_at r j)"
  by (auto simp: cell_at_def set_cell_def nth_append)

lemma cell_at_write_cells:
  "cell_at (write_cells r c vs) j =
     (if c \<le> j \<and> j < c + length vs \<and> \<not> skipped (vs ! (j - c)) then vs ! (j - c)
      else cell_at r j)"
proof (induction vs arbitrary: r c)
  case Nil
  then show ?case by auto
next
  case (Cons v vs)
  let ?r = "if skipped v then r else set_cell r c v"
  have step: "cell_at (write_cells ?r (Suc c) vs) j =
     (if Suc c \<le> j \<and> j < Suc c + length vs \<and> \<not> skipped (vs ! (j - Suc c))
      then vs ! (j - Suc c) else cell_at ?r j)"
    by (rule Cons.IH)
  show ?case
  proof (cases "j = c")
    case True
    with step show ?thesis by (simp add: cell_at_set_cell)
  next
    case False
    show ?thesis
    proof (cases "Suc c \<le> j \<and> j < Suc c + length vs")
      case True
      then obtain d where d: "j - c = Suc d" "j - Suc c = d"
        by (cases "j - c") auto
      with True False step show ?thesis by (simp add: cell_at_set_cell)
    next
      case no: False
      with False step show ?thesis by (auto simp: cell_at_set_cell)
    qed
  qed
qed

lemma row_at_set_row: "row_at (set_row t i r) j = (if j = i then r else row_at t j)"
  by (auto simp: row_at_def set_row_def nth_append)

lemma write_one_row: "write_rows t i c [vs] = set_row t i (write_cells (row_at t i) c vs)"
  by simp

lemma apply_effects_append:
  "apply_effects sheet (a @ b) t = apply_effects sheet b (apply_effects sheet a t)"
  by (simp add: apply_effects_def)

lemma apply_effects_Cons:
  "apply_effects sheet (x # xs) t = apply_effects sheet xs (apply_effect sheet x t)"
  by (simp add: apply_effects_def)

lemma apply_effects_Nil: "apply_effects sheet [] t = t"
  by (simp add: apply_effects_def)

lemma col_index_letters:
  "col_index CHR ''A'' = 0" "col_index CHR ''F'' = 5" "col_index CHR ''H'' = 7"
  by (simp_all add: col_index_def)

section \<open>Facts about the two branches\<close>

lemma qty_sub_nonneg: "\<not> qty_gt a b \<Longrightarrow> nonneg_qty (qty_sub b a)"
  by (auto simp: qty_gt_def qty_sub_def nonneg_qty_def split: option.splits)

lemma js_or_cash_loan: "js_or rt x (JStr ''Cash'') = JStr ''Loan'' \<longleftrightarrow> x = JStr ''Loan''"
  by (cases "truthy rt x") (auto simp: js_or_def)

lemma recordSale_bulk:
  "truthy rt sid \<Longrightarrow> bulkItems s = Some items \<Longrightarrow> items \<noteq> [] \<Longrightarrow>
   recordSale rt now today sid (Some s) vals =
     (ensured @ fst (bulk_sale rt now today s items vals), snd (bulk_sale rt now today s items vals))"
  by (cases items) (auto simp: recordSale_def ensured_def split: prod.splits)

lemma recordSale_single:
  "truthy rt sid \<Longrightarrow> bulkItems s = None \<or> bulkItems s = Some [] \<Longrightarrow>
   recordSale rt now today sid (Some s) vals =
     (ensured @ fst (single_sale rt now today s vals), snd (single_sale rt now today s vals))"
  by (auto simp: recordSale_def ensured_def split: prod.splits)

lemma recordSale_missing:
  "so = None \<or> \<not> truthy rt sid \<Longrightarrow>
   recordSale rt now today sid so vals = ([], Inl MissingRequiredFields)"
  by (auto simp: recordSale_def split: option.splits)

lemma bulk_sale_eq:
  "bulk_sale rt now today s items vals =
      (bulk_records rt now today s (length items) @ fst (bulk_loop rt vals items),
       (case fst (snd (bulk_loop rt vals items)) of Some e \<Rightarrow> Inl e | None \<Rightarrow> Inr (SaleOk now)))"
  by (cases "bulk_loop rt vals items") (auto simp: bulk_sale_def Let_def split: option.splits)

lemma bulk_row_reconciles: "total_reconciles rt (bulk_sale_row rt saleId today s n)"
  by (simp add: total_reconciles_def bulk_sale_row_def cell_at_def sale_total_def)

lemma single_row_reconciles: "total_reconciles rt (single_sale_row rt saleId today s itemRow q)"
  by (simp add: total_reconciles_def single_sale_row_def cell_at_def sale_total_def)

lemma bulk_loan_matches:
  "loan_matches_sale (bulk_loan_row rt saleId today s n) (bulk_sale_row rt saleId today s n)"
  by (simp add: loan_matches_sale_def bulk_loan_row_def loan_row_def bulk_sale_row_def cell_at_def)

lemma single_loan_matches:
  "loan_matches_sale (single_loan_row rt saleId today s r q) (single_sale_row rt saleId today s r q)"
  by (simp add: loan_matches_sale_def single_loan_row_def loan_row_def single_sale_row_def cell_at_def)

lemma single_sale_cases:
  "(fst (single_sale rt now today s vals) = [] \<and> (\<exists>e. snd (single_sale rt now today s vals) = Inl e))
   \<or> (\<exists>i q. find_item_row rt vals (itemId s) = Some i
          \<and> parseInt rt (js_or rt (quantitySold s) (lit0 rt)) = Some q \<and> 0 < q
          \<and> \<not> qty_gt (Some q) (existing_qty rt (vals ! i))
          \<and> single_sale rt now today s vals =
              (single_records rt now today s (vals ! i) (Some q)
                 @ [qty_update i (qty_sub (existing_qty rt (vals ! i)) (Some q))],
               Inr (SaleOkQty now (qty_sub (existing_qty rt (vals ! i)) (Some q)))))"
proof (cases "truthy rt (itemId s)")
  case False
  then show ?thesis by (simp add: single_sale_def)
next
  case True
  show ?thesis
  proof (cases "find_item_row rt vals (itemId s)")
    case None
    with True show ?thesis by (simp add: single_sale_def)
  next
    case (Some i)
    show ?thesis
    proof (cases "parseInt rt (js_or rt (quantitySold s) (lit0 rt))")
      case None
      with True Some show ?thesis by (simp add: single_sale_def Let_def)
    next
      case q: (Some q)
      show ?thesis
      proof (cases "q \<le> 0 \<or> qty_gt (Some q) (existing_qty rt (vals ! i))")
        case True
        with \<open>truthy rt (itemId s)\<close> Some q show ?thesis
          by (auto simp: single_sale_def Let_def)
      next
        case False
        with True Some q show ?thesis
          by (simp add: single_sale_def Let_def)
      qed
    qed
  qed
qed

lemma bulk_loop_effects:
  "x \<in> set (fst (bulk_loop rt vals items)) \<Longrightarrow> \<exists>n k. x = qty_update n k \<and> nonneg_qty k"
proof (induction items arbitrary: vals)
  case Nil
  then show ?case by simp
next
  case (Cons b bs)
  show ?case
  proof (cases "find_item_row rt vals (bi_itemId b)")
    case None
    with Cons show ?thesis by simp
  next
    case (Some i)
    show ?thesis
    proof (cases "qty_gt (parseInt rt (js_or rt (bi_qty b) (lit0 rt))) (existing_qty rt (vals ! i))")
      case True
      with Some Cons.prems show ?thesis by (simp add: Let_def)
    next
      case False
      let ?nq = "qty_sub (existing_qty rt (vals ! i)) (parseInt rt (js_or rt (bi_qty b) (lit0 rt)))"
      let ?vals = "vals[i := set_cell (vals ! i) 5 (JStr (string_of_qty ?nq))]"
      from Some False Cons.prems
      have "x = qty_update i ?nq \<or> x \<in> set (fst (bulk_loop rt ?vals bs))"
        by (auto simp: Let_def split: prod.splits)
      then show ?thesis
      proof
        assume "x = qty_update i ?nq"
        with qty_sub_nonneg [OF False] show ?thesis by blast
      next
        assume "x \<in> set (fst (bulk_loop rt ?vals bs))"
        then show ?thesis by (rule Cons.IH)
      qed
    qed
  qed
qed

lemma bulk_loop_app:
  "bulk_loop rt vals pre = (effs, None, vals') \<Longrightarrow>
   bulk_loop rt vals (pre @ rest) =
     (case bulk_loop rt vals' rest of (effs2, r) \<Rightarrow> (effs @ effs2, r))"
proof (induction pre arbitrary: vals effs)
  case Nil
  then show ?case by (simp split: prod.splits)
next
  case (Cons b bs)
  show ?case
  proof (cases "find_item_row rt vals (bi_itemId b)")
    case None
    with Cons show ?thesis by simp
  next
    case (Some i)
    show ?thesis
    proof (cases "qty_gt (parseInt rt (js_or rt (bi_qty b) (lit0 rt))) (existing_qty rt (vals ! i))")
      case True
      with Some Cons.prems show ?thesis by (simp add: Let_def)
    next
      case False
      with Some Cons.prems Cons.IH show ?thesis
        by (auto simp: Let_def split: prod.splits)
    qed
  qed
qed

lemma qty_update_not_append: "filter (is_append_to sh) [qty_update n k] = []"
  by (simp add: qty_update_def)

lemma updates_no_appends:
  "\<forall>x\<in>set ws. \<exists>n k. x = qty_update n k \<and> nonneg_qty k \<Longrightarrow> filter (is_append_to sh) ws = []"
  by (induction ws) (auto simp: qty_update_def)

lemma recordSale_trace:
  "((fst (recordSale rt now today sid so vals) = [] \<or> fst (recordSale rt now today sid so vals) = ensured)
      \<and> (\<exists>e. snd (recordSale rt now today sid so vals) = Inl e))
   \<or> (\<exists>s row lr ws. so = Some s
        \<and> fst (recordSale rt now today sid so vals) =
            ensured @ Append ''Sales'' row
              # (if paymentMethod s = JStr ''Loan'' then [Append ''Loans'' lr] else []) @ ws
        \<and> total_reconciles rt row \<and> loan_matches_sale lr row
        \<and> (\<forall>x\<in>set ws. \<exists>n k. x = qty_update n k \<and> nonneg_qty k))"
proof (cases "so = None \<or> \<not> truthy rt sid")
  case True
  then show ?thesis using recordSale_missing [of so rt sid now today vals] by simp
next
  case False
  then obtain s where so: "so = Some s" and sid: "truthy rt sid" by auto
  show ?thesis
  proof (cases "bulkItems s = None \<or> bulkItems s = Some []")
    case True
    note rs = recordSale_single [OF sid True, of now today vals]
    from single_sale_cases [of rt now today s vals] show ?thesis
    proof
      assume "fst (single_sale rt now today s vals) = [] \<and> (\<exists>e. snd (single_sale rt now today s vals) = Inl e)"
      with rs so show ?thesis by simp
    next
      assume "\<exists>i q. find_item_row rt vals (itemId s) = Some i
          \<and> parseInt rt (js_or rt (quantitySold s) (lit0 rt)) = Some q \<and> 0 < q
          \<and> \<not> qty_gt (Some q) (existing_qty rt (vals ! i))
          \<and> single_sale rt now today s vals =
              (single_records rt now today s (vals ! i) (Some q)
                 @ [qty_update i (qty_sub (existing_qty rt (vals ! i)) (Some q))],
               Inr (SaleOkQty now (qty_sub (existing_qty rt (vals ! i)) (Some q))))"
      then obtain i q where ng: "\<not> qty_gt (Some q) (existing_qty rt (vals ! i))"
        and eq: "single_sale rt now today s vals =
              (single_records rt now today s (vals ! i) (Some q)
                 @ [qty_update i (qty_sub (existing_qty rt (vals ! i)) (Some q))],
               Inr (SaleOkQty now (qty_sub (existing_qty rt (vals ! i)) (Some q))))"
        by blast
      let ?row = "single_sale_row rt now today s (vals ! i) (Some q)"
      let ?lr = "single_loan_row rt now today s (vals ! i) (Some q)"
      let ?ws = "[qty_update i (qty_sub (existing_qty rt (vals ! i)) (Some q))]"
      have tr: "fst (recordSale rt now today sid so vals) =
            ensured @ Append ''Sales'' ?row
              # (if paymentMethod s = JStr ''Loan'' then [Append ''Loans'' ?lr] else []) @ ?ws"
        using rs eq so by (simp add: single_records_def js_or_cash_loan)
      have ws: "\<forall>x\<in>set ?ws. \<exists>n k. x = qty_update n k \<and> nonneg_qty k"
        using qty_sub_nonneg [OF ng] by auto
      from so tr ws single_row_reconciles [of rt now today s "vals ! i" "Some q"]
        single_loan_matches [of rt now today s "vals ! i" "Some q"]
      show ?thesis by blast
    qed
  next
    case False
    then obtain items where items: "bulkItems s = Some items" "items \<noteq> []" by auto
    note rb = recordSale_bulk [OF sid items, of now today vals]
    let ?row = "bulk_sale_row rt now today s (length items)"
    let ?lr = "bulk_loan_row rt now today s (length items)"
    let ?ws = "fst (bulk_loop rt vals items)"
    have tr: "fst (recordSale rt now today sid so vals) =
            ensured @ Append ''Sales'' ?row
              # (if paymentMethod s = JStr ''Loan'' then [Append ''Loans'' ?lr] else []) @ ?ws"
      using rb so by (simp add: bulk_sale_eq bulk_records_def)
    have ws: "\<forall>x\<in>set ?ws. \<exists>n k. x = qty_update n k \<and> nonneg_qty k"
      using bulk_loop_effects by blast
    from so tr ws bulk_row_reconciles [of rt now today s "length items"]
      bulk_loan_matches [of rt now today s "length items"]
    show ?thesis by blast
  qed
qed

section \<open>Single-item sales\<close>

lemma single_records_other_sheets:
  "apply_effects ''Inventory'' (single_records rt saleId today s itemRow q) t = t"
  by (simp add: single_records_def apply_effects_def)

lemma bulk_records_other_sheets:
  "apply_effects ''Inventory'' (bulk_records rt saleId today s n) t = t"
  by (simp add: bulk_records_def apply_effects_def)

lemma ensured_changes_nothing: "apply_effects sheet ensured t = t"
  by (simp add: ensured_def apply_effects_def)

lemma qty_update_lands:
  "cell_at (row_at (apply_effects ''Inventory'' [qty_update i k] t) i) 5 = JStr (string_of_qty k)"
  by (simp add: qty_update_def apply_effects_Cons apply_effects_Nil col_index_letters
        row_at_set_row cell_at_set_cell)

text \<open>
  Claim C1. A single-item sale whose item is found and whose quantity sold parses to a
  positive integer \<open>q\<close> not above the item's quantity \<open>e\<close> in the loaded table succeeds:
  after the sale row (and the loan row, if any) the handler issues exactly one range
  update, to cell F of the item's sheet row, with the string form of \<open>e - q\<close>, so that
  the Quantity cell of the item's row holds it afterwards, and it answers with the sale
  identifier and \<open>newQuantity = e - q\<close>.
\<close>

theorem single_sale_writes_difference:
  assumes "truthy rt spreadsheetId"
    and "bulkItems s = None \<or> bulkItems s = Some []"
    and "truthy rt (itemId s)"
    and "find_item_row rt vals (itemId s) = Some i"
    and "parseInt rt (js_or rt (quantitySold s) (lit0 rt)) = Some q"
    and "0 < q"
    and "existing_qty rt (vals ! i) = Some e"
    and "q \<le> e"
  shows "recordSale rt now today spreadsheetId (Some s) vals =
           (ensured @ single_records rt now today s (vals ! i) (Some q)
              @ [Update (Cell ''Inventory'' CHR ''F'' (i + 1)) [[JStr (string_of_qty (Some (e - q)))]]],
            Inr (SaleOkQty now (Some (e - q))))
       \<and> filter is_update (fst (recordSale rt now today spreadsheetId (Some s) vals))
           = [Update (Cell ''Inventory'' CHR ''F'' (i + 1)) [[JStr (string_of_qty (Some (e - q)))]]]
       \<and> (\<forall>sheet. cell_at (row_at (apply_effects ''Inventory''
                        (fst (recordSale rt now today spreadsheetId (Some s) vals)) sheet) i) 5
            = JStr (string_of_qty (Some (e - q))))"
proof -
  have nogt: "\<not> qty_gt (Some q) (Some e)"
    using assms(8) by (simp add: qty_gt_def)
  have sub: "qty_sub (Some e) (Some q) = Some (e - q)"
    by (simp add: qty_sub_def)
  have branch: "single_sale rt now today s vals =
      (single_records rt now today s (vals ! i) (Some q) @ [qty_update i (Some (e - q))],
       Inr (SaleOkQty now (Some (e - q))))"
    using assms(3-7) nogt sub by (simp add: single_sale_def Let_def)
  have run: "recordSale rt now today spreadsheetId (Some s) vals =
      (ensured @ single_records rt now today s (vals ! i) (Some q) @ [qty_update i (Some (e - q))],
       Inr (SaleOkQty now (Some (e - q))))"
    using recordSale_single [OF assms(1,2), of now today vals] branch by simp
  have upd: "filter is_update (fst (recordSale rt now today spreadsheetId (Some s) vals))
           = [qty_update i (Some (e - q))]"
    unfolding run by (simp add: ensured_def single_records_def qty_update_def)
  have store: "cell_at (row_at (apply_effects ''Inventory''
                 (fst (recordSale rt now today spreadsheetId (Some s) vals)) sheet) i) 5
            = JStr (string_of_qty (Some (e - q)))" for sheet
    unfolding run
    by (simp add: apply_effects_append ensured_changes_nothing single_records_other_sheets
          qty_update_lands)
  from run upd store show ?thesis by (simp add: qty_update_def)
qed

theorem single_sale_writes_difference_witness:
  "snd (run_demo demo_retail) = Inr (SaleOkQty ''1700000000000'' (Some 7))
   \<and> filter is_update (fst (run_demo demo_retail))
       = [Update (Cell ''Inventory'' CHR ''F'' 2) [[JStr ''7'']]]
   \<and> cell_at (row_at (apply_effects ''Inventory'' (fst (run_demo demo_retail)) demo_inventory) 1) 5
       = JStr ''7''"
proof -
  have h1: "truthy int_runtime (JStr ''sheet'')" by simp
  have h2: "bulkItems demo_retail = None \<or> bulkItems demo_retail = Some []"
    by (simp add: demo_retail_def no_sale_def)
  have h3: "truthy int_runtime (itemId demo_retail)" by (simp add: demo_retail_def)
  have h4: "find_item_row int_runtime demo_inventory (itemId demo_retail) = Some 1" by code_simp
  have h5: "parseInt int_runtime (js_or int_runtime (quantitySold demo_retail) (lit0 int_runtime))
              = Some 3"
    by code_simp
  have h6: "(0::int) < 3" by simp
  have h7: "existing_qty int_runtime (demo_inventory ! 1) = Some 10" by code_simp
  have h8: "(3::int) \<le> 10" by simp
  have seven: "(10::int) - 3 = 7" by simp
  have s7: "string_of_qty (Some 7) = ''7''" by code_simp
  have two: "(1::nat) + 1 = 2" by simp
  note inst = single_sale_writes_difference
    [OF h1 h2 h3 h4 h5 h6 h7 h8, of "''1700000000000''" "''2024-05-01''", unfolded seven,
     unfolded s7 two]
  let ?run = "recordSale int_runtime ''1700000000000'' ''2024-05-01'' (JStr ''sheet'')
                (Some demo_retail) demo_inventory"
  from inst have r: "?run =
           (ensured @ single_records int_runtime ''1700000000000'' ''2024-05-01'' demo_retail
                        (demo_inventory ! 1) (Some 3)
              @ [Update (Cell ''Inventory'' CHR ''F'' 2) [[JStr ''7'']]],
            Inr (SaleOkQty ''1700000000000'' (Some 7)))"
    by (rule conjunct1)
  from inst have u: "filter is_update (fst ?run) = [Update (Cell ''Inventory'' CHR ''F'' 2) [[JStr ''7'']]]"
    by blast
  from inst have st: "cell_at (row_at (apply_effects ''Inventory'' (fst ?run) demo_inventory) 1) 5
                        = JStr ''7''"
    by blast
  have a: "snd ?run = Inr (SaleOkQty ''1700000000000'' (Some 7))"
    by (simp only: r snd_conv)
  from a u st show ?thesis unfolding run_demo_def by blast
qed

section \<open>What a run that appends a sale has issued\<close>

lemma sales_append_in_trace:
  assumes mem: "Append ''Sales'' saleRow \<in> set (fst (recordSale rt now today sid so vals))"
  shows "\<exists>s lr ws. so = Some s
        \<and> fst (recordSale rt now today sid so vals) =
            ensured @ Append ''Sales'' saleRow
              # (if paymentMethod s = JStr ''Loan'' then [Append ''Loans'' lr] else []) @ ws
        \<and> total_reconciles rt saleRow \<and> loan_matches_sale lr saleRow
        \<and> (\<forall>x\<in>set ws. \<exists>n k. x = qty_update n k \<and> nonneg_qty k)"
proof -
  from recordSale_trace [of rt now today sid so vals] show ?thesis
  proof
    assume "(fst (recordSale rt now today sid so vals) = [] \<or> fst (recordSale rt now today sid so vals) = ensured)
      \<and> (\<exists>e. snd (recordSale rt now today sid so vals) = Inl e)"
    with mem show ?thesis by (auto simp: ensured_def)
  next
    assume "\<exists>s row lr ws. so = Some s
        \<and> fst (recordSale rt now today sid so vals) =
            ensured @ Append ''Sales'' row
              # (if paymentMethod s = JStr ''Loan'' then [Append ''Loans'' lr] else []) @ ws
        \<and> total_reconciles rt row \<and> loan_matches_sale lr row
        \<and> (\<forall>x\<in>set ws. \<exists>n k. x = qty_update n k \<and> nonneg_qty k)"
    then obtain s row lr ws where so: "so = Some s"
      and tr: "fst (recordSale rt now today sid so vals) =
            ensured @ Append ''Sales'' row
              # (if paymentMethod s = JStr ''Loan'' then [Append ''Loans'' lr] else []) @ ws"
      and ok: "total_reconciles rt row" "loan_matches_sale lr row"
      and ws: "\<forall>x\<in>set ws. \<exists>n k. x = qty_update n k \<and> nonneg_qty k"
      by blast
    have "Append ''Sales'' saleRow \<notin> set ws"
      using ws by (auto simp: qty_update_def)
    with mem tr have "saleRow = row"
      by (auto simp: ensured_def split: if_splits)
    with so tr ok ws show ?thesis by blast
  qed
qed

text \<open>The demonstration runs, evaluated once.\<close>

lemma run_demo_retail:
  "run_demo demo_retail =
     (ensured @
      [Append ''Sales'' [JStr ''1700000000000'', JStr ''101'', JStr ''Cloud'', JStr ''Juice'',
         JNum (Some 3), JNum (Some 50), JStr ''150.00'', JStr ''2024-05-01'', JStr [],
         JStr ''retail'', JStr ''Cash'', JStr []],
       Update (Cell ''Inventory'' CHR ''F'' 2) [[JStr ''7'']]],
      Inr (SaleOkQty ''1700000000000'' (Some 7)))"
  by code_simp

lemma run_demo_retail_loan:
  "run_demo demo_retail_loan =
     (ensured @
      [Append ''Sales'' [JStr ''1700000000000'', JStr ''101'', JStr ''Cloud'', JStr ''Juice'',
         JNum (Some 3), JNum (Some 50), JStr ''150.00'', JStr ''2024-05-01'', JStr ''Ana'',
         JStr ''retail'', JStr ''Loan'', JStr []],
       Append ''Loans'' [JStr ''LOAN-1700000000000'', JStr ''1700000000000'', JStr ''Ana'',
         JStr ''Cloud'', JStr ''150.00'', JStr ''2024-05-01'', JStr [], JStr ''Unpaid'', JStr [],
         JStr []],
       Update (Cell ''Inventory'' CHR ''F'' 2) [[JStr ''7'']]],
      Inr (SaleOkQty ''1700000000000'' (Some 7)))"
  by code_simp

lemma bulk_trace:
  assumes "truthy rt sid" and "bulkItems s = Some items" and "items \<noteq> []"
  shows "fst (recordSale rt now today sid (Some s) vals) =
           ensured @ Append ''Sales'' (bulk_sale_row rt now today s (length items))
             # (if paymentMethod s = JStr ''Loan''
                then [Append ''Loans'' (bulk_loan_row rt now today s (length items))] else [])
             @ fst (bulk_loop rt vals items)"
  using recordSale_bulk [OF assms, of now today vals] by (simp add: bulk_sale_eq bulk_records_def)

lemma bulk_row_cells:
  "cell_at (bulk_sale_row rt saleId today s n) 0 = JStr saleId"
  "cell_at (bulk_sale_row rt saleId today s n) 1 = JStr ''BULK''"
  "cell_at (bulk_sale_row rt saleId today s n) 6
     = JStr (sale_total rt (bulk_price rt s) (bulk_sell_qty rt s))"
  "cell_at (bulk_loan_row rt saleId today s n) 1 = JStr saleId"
  "cell_at (bulk_loan_row rt saleId today s n) 4
     = JStr (sale_total rt (bulk_price rt s) (bulk_sell_qty rt s))"
  "cell_at (bulk_loan_row rt saleId today s n) 7 = JStr ''Unpaid''"
  by (simp_all add: bulk_sale_row_def bulk_loan_row_def loan_row_def cell_at_def)

lemma single_row_cells:
  "cell_at (single_sale_row rt saleId today s r q) 0 = JStr saleId"
  "cell_at (single_sale_row rt saleId today s r q) 6
     = JStr (sale_total rt (single_price rt s r) q)"
  "cell_at (single_loan_row rt saleId today s r q) 1 = JStr saleId"
  "cell_at (single_loan_row rt saleId today s r q) 4
     = JStr (sale_total rt (single_price rt s r) q)"
  "cell_at (single_loan_row rt saleId today s r q) 7 = JStr ''Unpaid''"
  by (simp_all add: single_sale_row_def single_loan_row_def loan_row_def cell_at_def)

lemma single_trace:
  assumes "truthy rt sid" and "bulkItems s = None \<or> bulkItems s = Some []"
    and "truthy rt (itemId s)"
    and "find_item_row rt vals (itemId s) = Some i"
    and "parseInt rt (js_or rt (quantitySold s) (lit0 rt)) = Some q" and "0 < q"
    and "\<not> qty_gt (Some q) (existing_qty rt (vals ! i))"
  shows "fst (recordSale rt now today sid (Some s) vals) =
           ensured @ Append ''Sales'' (single_sale_row rt now today s (vals ! i) (Some q))
             # (if paymentMethod s = JStr ''Loan''
                then [Append ''Loans'' (single_loan_row rt now today s (vals ! i) (Some q))] else [])
             @ [qty_update i (qty_sub (existing_qty rt (vals ! i)) (Some q))]"
proof -
  have "single_sale rt now today s vals =
      (single_records rt now today s (vals ! i) (Some q)
         @ [qty_update i (qty_sub (existing_qty rt (vals ! i)) (Some q))],
       Inr (SaleOkQty now (qty_sub (existing_qty rt (vals ! i)) (Some q))))"
    using assms(3-7) by (simp add: single_sale_def Let_def)
  then show ?thesis
    using recordSale_single [OF assms(1,2), of now today vals]
    by (simp add: single_records_def js_or_cash_loan)
qed

section \<open>Loans\<close>

text \<open>
  Claim C3. For a bulk request (a sheet identifier and a non-empty list of lines) the
  run appends exactly one row to the Sales sheet, and to the Loans sheet exactly one row
  when the request's payment method is the string \<open>Loan\<close> and none otherwise. The
  same holds for a single-item request that passes the handler's checks (item found,
  quantity a positive integer not above the stock). In both branches the loan row's
  Amount cell is the sale row's Total cell, the two-decimal total of the sale, and its
  Status cell is \<open>Unpaid\<close>. Conversely, whenever a run has appended a sale row, its
  Loans appends are that one row or none, by the payment method.
\<close>

theorem loan_appended_iff_payment_is_loan:
  assumes "truthy rt sid"
  shows "(bulkItems s = Some items \<and> items \<noteq> [] \<longrightarrow>
            filter (is_append_to ''Sales'') (fst (recordSale rt now today sid (Some s) vals))
              = [Append ''Sales'' (bulk_sale_row rt now today s (length items))]
          \<and> filter (is_append_to ''Loans'') (fst (recordSale rt now today sid (Some s) vals))
              = (if paymentMethod s = JStr ''Loan''
                 then [Append ''Loans'' (bulk_loan_row rt now today s (length items))] else [])
          \<and> cell_at (bulk_loan_row rt now today s (length items)) 4
              = cell_at (bulk_sale_row rt now today s (length items)) 6
          \<and> cell_at (bulk_sale_row rt now today s (length items)) 6
              = JStr (sale_total rt (bulk_price rt s) (bulk_sell_qty rt s))
          \<and> cell_at (bulk_loan_row rt now today s (length items)) 7 = JStr ''Unpaid'')
       \<and> ((bulkItems s = None \<or> bulkItems s = Some []) \<and> truthy rt (itemId s)
            \<and> find_item_row rt vals (itemId s) = Some i
            \<and> parseInt rt (js_or rt (quantitySold s) (lit0 rt)) = Some q \<and> 0 < q
            \<and> \<not> qty_gt (Some q) (existing_qty rt (vals ! i)) \<longrightarrow>
            filter (is_append_to ''Sales'') (fst (recordSale rt now today sid (Some s) vals))
              = [Append ''Sales'' (single_sale_row rt now today s (vals ! i) (Some q))]
          \<and> filter (is_append_to ''Loans'') (fst (recordSale rt now today sid (Some s) vals))
              = (if paymentMethod s = JStr ''Loan''
                 then [Append ''Loans'' (single_loan_row rt now today s (vals ! i) (Some q))] else [])
          \<and> cell_at (single_loan_row rt now today s (vals ! i) (Some q)) 4
              = cell_at (single_sale_row rt now today s (vals ! i) (Some q)) 6
          \<and> cell_at (single_sale_row rt now today s (vals ! i) (Some q)) 6
              = JStr (sale_total rt (single_price rt s (vals ! i)) (Some q))
          \<and> cell_at (single_loan_row rt now today s (vals ! i) (Some q)) 7 = JStr ''Unpaid'')
       \<and> (\<forall>saleRow. Append ''Sales'' saleRow \<in> set (fst (recordSale rt now today sid (Some s) vals)) \<longrightarrow>
            (paymentMethod s = JStr ''Loan'' \<longrightarrow>
               (\<exists>lr. filter (is_append_to ''Loans'') (fst (recordSale rt now today sid (Some s) vals))
                        = [Append ''Loans'' lr]
                    \<and> cell_at lr 4 = cell_at saleRow 6 \<and> cell_at lr 7 = JStr ''Unpaid''))
          \<and> (paymentMethod s \<noteq> JStr ''Loan'' \<longrightarrow>
               filter (is_append_to ''Loans'') (fst (recordSale rt now today sid (Some s) vals)) = []))"
proof (intro conjI impI allI)
  assume a: "bulkItems s = Some items \<and> items \<noteq> []"
  then have tr: "fst (recordSale rt now today sid (Some s) vals) =
           ensured @ Append ''Sales'' (bulk_sale_row rt now today s (length items))
             # (if paymentMethod s = JStr ''Loan''
                then [Append ''Loans'' (bulk_loan_row rt now today s (length items))] else [])
             @ fst (bulk_loop rt vals items)"
    using bulk_trace [OF assms, of s items now today vals] by blast
  have ws: "\<forall>x\<in>set (fst (bulk_loop rt vals items)). \<exists>n k. x = qty_update n k \<and> nonneg_qty k"
    using bulk_loop_effects by blast
  have no_sales: "filter (is_append_to ''Sales'') (fst (bulk_loop rt vals items)) = []"
    and no_loans: "filter (is_append_to ''Loans'') (fst (bulk_loop rt vals items)) = []"
    using ws by (rule updates_no_appends)+
  show "filter (is_append_to ''Sales'') (fst (recordSale rt now today sid (Some s) vals))
              = [Append ''Sales'' (bulk_sale_row rt now today s (length items))]"
    unfolding tr using no_sales by (simp add: ensured_def)
  show "filter (is_append_to ''Loans'') (fst (recordSale rt now today sid (Some s) vals))
              = (if paymentMethod s = JStr ''Loan''
                 then [Append ''Loans'' (bulk_loan_row rt now today s (length items))] else [])"
    unfolding tr using no_loans by (simp add: ensured_def)
  show "cell_at (bulk_loan_row rt now today s (length items)) 4
              = cell_at (bulk_sale_row rt now today s (length items)) 6"
    by (simp only: bulk_row_cells)
  show "cell_at (bulk_sale_row rt now today s (length items)) 6
              = JStr (sale_total rt (bulk_price rt s) (bulk_sell_qty rt s))"
    by (rule bulk_row_cells)
  show "cell_at (bulk_loan_row rt now today s (length items)) 7 = JStr ''Unpaid''"
    by (rule bulk_row_cells)
next
  assume a: "(bulkItems s = None \<or> bulkItems s = Some []) \<and> truthy rt (itemId s)
            \<and> find_item_row rt vals (itemId s) = Some i
            \<and> parseInt rt (js_or rt (quantitySold s) (lit0 rt)) = Some q \<and> 0 < q
            \<and> \<not> qty_gt (Some q) (existing_qty rt (vals ! i))"
  then have tr: "fst (recordSale rt now today sid (Some s) vals) =
           ensured @ Append ''Sales'' (single_sale_row rt now today s (vals ! i) (Some q))
             # (if paymentMethod s = JStr ''Loan''
                then [Append ''Loans'' (single_loan_row rt now today s (vals ! i) (Some q))] else [])
             @ [qty_update i (qty_sub (existing_qty rt (vals ! i)) (Some q))]"
    using single_trace [OF assms, of s vals i q now today] by blast
  show "filter (is_append_to ''Sales'') (fst (recordSale rt now today sid (Some s) vals))
              = [Append ''Sales'' (single_sale_row rt now today s (vals ! i) (Some q))]"
    unfolding tr by (simp add: ensured_def qty_update_def)
  show "filter (is_append_to ''Loans'') (fst (recordSale rt now today sid (Some s) vals))
              = (if paymentMethod s = JStr ''Loan''
                 then [Append ''Loans'' (single_loan_row rt now today s (vals ! i) (Some q))] else [])"
    unfolding tr by (simp add: ensured_def qty_update_def)
  show "cell_at (single_loan_row rt now today s (vals ! i) (Some q)) 4
              = cell_at (single_sale_row rt now today s (vals ! i) (Some q)) 6"
    by (simp only: single_row_cells)
  show "cell_at (single_sale_row rt now today s (vals ! i) (Some q)) 6
              = JStr (sale_total rt (single_price rt s (vals ! i)) (Some q))"
    by (rule single_row_cells)
  show "cell_at (single_loan_row rt now today s (vals ! i) (Some q)) 7 = JStr ''Unpaid''"
    by (rule single_row_cells)
next
  fix saleRow
  assume mem: "Append ''Sales'' saleRow \<in> set (fst (recordSale rt now today sid (Some s) vals))"
  from sales_append_in_trace [OF mem] obtain lr ws where
    tr: "fst (recordSale rt now today sid (Some s) vals) =
            ensured @ Append ''Sales'' saleRow
              # (if paymentMethod s = JStr ''Loan'' then [Append ''Loans'' lr] else []) @ ws"
    and lm: "loan_matches_sale lr saleRow"
    and ws: "\<forall>x\<in>set ws. \<exists>n k. x = qty_update n k \<and> nonneg_qty k"
    by auto
  have nows: "filter (is_append_to ''Loans'') ws = []"
    using ws by (rule updates_no_appends)
  have eq: "filter (is_append_to ''Loans'') (fst (recordSale rt now today sid (Some s) vals)) =
          (if paymentMethod s = JStr ''Loan'' then [Append ''Loans'' lr] else [])"
    unfolding tr using nows by (simp add: ensured_def)
  {
    assume "paymentMethod s = JStr ''Loan''"
    with eq lm show "\<exists>lr. filter (is_append_to ''Loans'') (fst (recordSale rt now today sid (Some s) vals))
                        = [Append ''Loans'' lr]
                    \<and> cell_at lr 4 = cell_at saleRow 6 \<and> cell_at lr 7 = JStr ''Unpaid''"
      by (auto simp: loan_matches_sale_def)
  }
  {
    assume "paymentMethod s \<noteq> JStr ''Loan''"
    with eq show "filter (is_append_to ''Loans'') (fst (recordSale rt now today sid (Some s) vals)) = []"
      by simp
  }
qed

theorem loan_appended_iff_payment_is_loan_witness:
  "filter (is_append_to ''Sales'')
      (fst (run_demo ((demo_bulk [line ''101'' 3, line ''102'' 2])\<lparr>paymentMethod := JStr ''Loan''\<rparr>)))
     = [Append ''Sales'' [JStr ''1700000000000'', JStr ''BULK'', JStr ''Bulk Sale (2 flavors)'',
          JStr ''Bulk'', JNum (Some 5), JNum (Some 50), JStr ''250.00'', JStr ''2024-05-01'',
          JStr [], JStr ''bulk'', JStr ''Loan'', JStr []]]
   \<and> filter (is_append_to ''Loans'')
      (fst (run_demo ((demo_bulk [line ''101'' 3, line ''102'' 2])\<lparr>paymentMethod := JStr ''Loan''\<rparr>)))
     = [Append ''Loans'' [JStr ''LOAN-1700000000000'', JStr ''1700000000000'',
          JStr ''Unknown Customer'', JStr ''Bulk Sale (2 flavors)'', JStr ''250.00'',
          JStr ''2024-05-01'', JStr [], JStr ''Unpaid'', JStr [], JStr []]]
   \<and> filter (is_append_to ''Sales'') (fst (run_demo (demo_bulk [line ''101'' 3, line ''102'' 2])))
     = [Append ''Sales'' [JStr ''1700000000000'', JStr ''BULK'', JStr ''Bulk Sale (2 flavors)'',
          JStr ''Bulk'', JNum (Some 5), JNum (Some 50), JStr ''250.00'', JStr ''2024-05-01'',
          JStr [], JStr ''bulk'', JStr ''Cash'', JStr []]]
   \<and> filter (is_append_to ''Loans'') (fst (run_demo (demo_bulk [line ''101'' 3, line ''102'' 2]))) = []
   \<and> filter (is_append_to ''Sales'') (fst (run_demo demo_retail_loan))
     = [Append ''Sales'' [JStr ''1700000000000'', JStr ''101'', JStr ''Cloud'', JStr ''Juice'',
          JNum (Some 3), JNum (Some 50), JStr ''150.00'', JStr ''2024-05-01'', JStr ''Ana'',
          JStr ''retail'', JStr ''Loan'', JStr []]]
   \<and> filter (is_append_to ''Loans'') (fst (run_demo demo_retail_loan))
     = [Append ''Loans'' [JStr ''LOAN-1700000000000'', JStr ''1700000000000'', JStr ''Ana'',
          JStr ''Cloud'', JStr ''150.00'', JStr ''2024-05-01'', JStr [], JStr ''Unpaid'', JStr [],
          JStr []]]
   \<and> filter (is_append_to ''Loans'') (fst (run_demo demo_retail)) = []"
proof -
  let ?items = "[line ''101'' 3, line ''102'' 2]"
  let ?bl = "(demo_bulk ?items)\<lparr>paymentMethod := JStr ''Loan''\<rparr>"
  let ?bc = "demo_bulk ?items"
  have sid: "truthy int_runtime (JStr ''sheet'')" by simp
  have len: "length ?items = 2" by simp
  have bl: "bulkItems ?bl = Some ?items \<and> ?items \<noteq> []"
    and bc: "bulkItems ?bc = Some ?items \<and> ?items \<noteq> []"
    by (simp_all add: demo_bulk_def no_sale_def)
  have pl: "(paymentMethod ?bl = JStr ''Loan'') = True"
    and pc: "(paymentMethod ?bc = JStr ''Loan'') = False"
    and prl: "(paymentMethod demo_retail_loan = JStr ''Loan'') = True"
    and prc: "paymentMethod demo_retail \<noteq> JStr ''Loan''"
    by (simp_all add: demo_bulk_def demo_retail_loan_def demo_retail_def no_sale_def)
  have blSale: "bulk_sale_row int_runtime ''1700000000000'' ''2024-05-01'' ?bl 2 =
        [JStr ''1700000000000'', JStr ''BULK'', JStr ''Bulk Sale (2 flavors)'',
          JStr ''Bulk'', JNum (Some 5), JNum (Some 50), JStr ''250.00'', JStr ''2024-05-01'',
          JStr [], JStr ''bulk'', JStr ''Loan'', JStr []]"
    by code_simp
  have blLoan: "bulk_loan_row int_runtime ''1700000000000'' ''2024-05-01'' ?bl 2 =
        [JStr ''LOAN-1700000000000'', JStr ''1700000000000'',
          JStr ''Unknown Customer'', JStr ''Bulk Sale (2 flavors)'', JStr ''250.00'',
          JStr ''2024-05-01'', JStr [], JStr ''Unpaid'', JStr [], JStr []]"
    by code_simp
  have bcSale: "bulk_sale_row int_runtime ''1700000000000'' ''2024-05-01'' ?bc 2 =
        [JStr ''1700000000000'', JStr ''BULK'', JStr ''Bulk Sale (2 flavors)'',
          JStr ''Bulk'', JNum (Some 5), JNum (Some 50), JStr ''250.00'', JStr ''2024-05-01'',
          JStr [], JStr ''bulk'', JStr ''Cash'', JStr []]"
    by code_simp
  have single: "(bulkItems demo_retail_loan = None \<or> bulkItems demo_retail_loan = Some [])
        \<and> truthy int_runtime (itemId demo_retail_loan)
        \<and> find_item_row int_runtime demo_inventory (itemId demo_retail_loan) = Some 1
        \<and> parseInt int_runtime (js_or int_runtime (quantitySold demo_retail_loan) (lit0 int_runtime)) = Some 3
        \<and> 0 < (3::int)
        \<and> \<not> qty_gt (Some 3) (existing_qty int_runtime (demo_inventory ! 1))"
    by code_simp
  have rlSale: "single_sale_row int_runtime ''1700000000000'' ''2024-05-01'' demo_retail_loan
                  (demo_inventory ! 1) (Some 3) =
        [JStr ''1700000000000'', JStr ''101'', JStr ''Cloud'', JStr ''Juice'',
          JNum (Some 3), JNum (Some 50), JStr ''150.00'', JStr ''2024-05-01'', JStr ''Ana'',
          JStr ''retail'', JStr ''Loan'', JStr []]"
    by code_simp
  have rlLoan: "single_loan_row int_runtime ''1700000000000'' ''2024-05-01'' demo_retail_loan
                  (demo_inventory ! 1) (Some 3) =
        [JStr ''LOAN-1700000000000'', JStr ''1700000000000'', JStr ''Ana'',
          JStr ''Cloud'', JStr ''150.00'', JStr ''2024-05-01'', JStr [], JStr ''Unpaid'', JStr [],
          JStr []]"
    by code_simp
  have mem: "Append ''Sales'' [JStr ''1700000000000'', JStr ''101'', JStr ''Cloud'', JStr ''Juice'',
         JNum (Some 3), JNum (Some 50), JStr ''150.00'', JStr ''2024-05-01'', JStr [],
         JStr ''retail'', JStr ''Cash'', JStr []]
       \<in> set (fst (recordSale int_runtime ''1700000000000'' ''2024-05-01'' (JStr ''sheet'')
                     (Some demo_retail) demo_inventory))"
    using run_demo_retail by (simp add: run_demo_def)
  note i1 = loan_appended_iff_payment_is_loan
    [OF sid, where s = ?bl and items = ?items and now = "''1700000000000''"
       and today = "''2024-05-01''" and vals = demo_inventory, unfolded len]
  note i2 = loan_appended_iff_payment_is_loan
    [OF sid, where s = ?bc and items = ?items and now = "''1700000000000''"
       and today = "''2024-05-01''" and vals = demo_inventory, unfolded len]
  note i3 = loan_appended_iff_payment_is_loan
    [OF sid, where s = demo_retail_loan and vals = demo_inventory and i = 1 and q = 3
       and now = "''1700000000000''" and today = "''2024-05-01''"]
  note i4 = loan_appended_iff_payment_is_loan
    [OF sid, where s = demo_retail and vals = demo_inventory
       and now = "''1700000000000''" and today = "''2024-05-01''"]
  have a1: "filter (is_append_to ''Sales'') (fst (recordSale int_runtime ''1700000000000''
               ''2024-05-01'' (JStr ''sheet'') (Some ?bl) demo_inventory))
             = [Append ''Sales'' (bulk_sale_row int_runtime ''1700000000000'' ''2024-05-01'' ?bl 2)]"
    and a2: "filter (is_append_to ''Loans'') (fst (recordSale int_runtime ''1700000000000''
               ''2024-05-01'' (JStr ''sheet'') (Some ?bl) demo_inventory))
             = (if paymentMethod ?bl = JStr ''Loan''
                then [Append ''Loans'' (bulk_loan_row int_runtime ''1700000000000'' ''2024-05-01'' ?bl 2)]
                else [])"
    using i1 bl by blast+
  have b1: "filter (is_append_to ''Sales'') (fst (recordSale int_runtime ''1700000000000''
               ''2024-05-01'' (JStr ''sheet'') (Some ?bc) demo_inventory))
             = [Append ''Sales'' (bulk_sale_row int_runtime ''1700000000000'' ''2024-05-01'' ?bc 2)]"
    and b2: "filter (is_append_to ''Loans'') (fst (recordSale int_runtime ''1700000000000''
               ''2024-05-01'' (JStr ''sheet'') (Some ?bc) demo_inventory))
             = (if paymentMethod ?bc = JStr ''Loan''
                then [Append ''Loans'' (bulk_loan_row int_runtime ''1700000000000'' ''2024-05-01'' ?bc 2)]
                else [])"
    using i2 bc by blast+
  have c1: "filter (is_append_to ''Sales'') (fst (recordSale int_runtime ''1700000000000''
               ''2024-05-01'' (JStr ''sheet'') (Some demo_retail_loan) demo_inventory))
             = [Append ''Sales'' (single_sale_row int_runtime ''1700000000000'' ''2024-05-01''
                  demo_retail_loan (demo_inventory ! 1) (Some 3))]"
    and c2: "filter (is_append_to ''Loans'') (fst (recordSale int_runtime ''1700000000000''
               ''2024-05-01'' (JStr ''sheet'') (Some demo_retail_loan) demo_inventory))
             = (if paymentMethod demo_retail_loan = JStr ''Loan''
                then [Append ''Loans'' (single_loan_row int_runtime ''1700000000000'' ''2024-05-01''
                  demo_retail_loan (demo_inventory ! 1) (Some 3))]
                else [])"
    using i3 single by blast+
  have d2: "filter (is_append_to ''Loans'') (fst (recordSale int_runtime ''1700000000000''
               ''2024-05-01'' (JStr ''sheet'') (Some demo_retail) demo_inventory)) = []"
    using i4 mem prc by blast
  note r1 = a1 [unfolded blSale]
  note r2 = a2 [unfolded pl if_True blLoan]
  note r3 = b1 [unfolded bcSale]
  note r4 = b2 [unfolded pc if_False]
  note r5 = c1 [unfolded rlSale]
  note r6 = c2 [unfolded prl if_True rlLoan]
  from r1 r2 r3 r4 r5 r6 d2 show ?thesis unfolding run_demo_def by blast
qed

section \<open>Totals\<close>

text \<open>
  Claim C4. Every sale row the handler appends, in either branch, reconciles: its Total
  cell is \<open>toFixed(2)\<close> of the product of its Price Per Unit cell and its Quantity Sold
  cell. The run appends no other row to the Sales sheet, and every range update of the
  run addresses a cell of column F of the Inventory sheet, so the total is not written a
  second time. The product and the rendering are the runtime's.
\<close>

theorem sale_total_is_rounded_product:
  assumes "Append ''Sales'' saleRow \<in> set (fst (recordSale rt now today sid so vals))"
  shows "total_reconciles rt saleRow
       \<and> filter (is_append_to ''Sales'') (fst (recordSale rt now today sid so vals))
           = [Append ''Sales'' saleRow]
       \<and> (\<forall>x\<in>set (fst (recordSale rt now today sid so vals)).
             is_update x \<longrightarrow> (\<exists>n v. x = Update (Cell ''Inventory'' CHR ''F'' n) v))"
proof -
  from sales_append_in_trace [OF assms] obtain s lr ws where
    so: "so = Some s" and
    tr: "fst (recordSale rt now today sid so vals) =
            ensured @ Append ''Sales'' saleRow
              # (if paymentMethod s = JStr ''Loan'' then [Append ''Loans'' lr] else []) @ ws"
    and ok: "total_reconciles rt saleRow"
    and ws: "\<forall>x\<in>set ws. \<exists>n k. x = qty_update n k \<and> nonneg_qty k"
    by auto
  have nows: "filter (is_append_to ''Sales'') ws = []"
    using ws by (rule updates_no_appends)
  have one: "filter (is_append_to ''Sales'') (fst (recordSale rt now today sid so vals))
           = [Append ''Sales'' saleRow]"
    unfolding tr using nows by (simp add: ensured_def)
  have upd: "\<forall>x\<in>set (fst (recordSale rt now today sid so vals)).
             is_update x \<longrightarrow> (\<exists>n v. x = Update (Cell ''Inventory'' CHR ''F'' n) v)"
    unfolding tr using ws by (auto simp: ensured_def qty_update_def)
  from ok one upd show ?thesis by blast
qed

theorem sale_total_is_rounded_product_witness:
  "Append ''Sales'' [JStr ''1700000000000'', JStr ''101'', JStr ''Cloud'', JStr ''Juice'',
         JNum (Some 3), JNum (Some 50), JStr ''150.00'', JStr ''2024-05-01'', JStr [],
         JStr ''retail'', JStr ''Cash'', JStr []] \<in> set (fst (run_demo demo_retail))
   \<and> total_reconciles int_runtime [JStr ''1700000000000'', JStr ''101'', JStr ''Cloud'', JStr ''Juice'',
         JNum (Some 3), JNum (Some 50), JStr ''150.00'', JStr ''2024-05-01'', JStr [],
         JStr ''retail'', JStr ''Cash'', JStr []]
   \<and> is_update (Update (Cell ''Inventory'' CHR ''F'' 2) [[JStr ''7'']] :: qty effect)
   \<and> Update (Cell ''Inventory'' CHR ''F'' 2) [[JStr ''7'']] \<in> set (fst (run_demo demo_retail))"
proof -
  let ?row = "[JStr ''1700000000000'', JStr ''101'', JStr ''Cloud'', JStr ''Juice'',
         JNum (Some 3), JNum (Some 50), JStr ''150.00'', JStr ''2024-05-01'', JStr [],
         JStr ''retail'', JStr ''Cash'', JStr []] :: qty row"
  have m: "Append ''Sales'' ?row \<in> set (fst (recordSale int_runtime ''1700000000000''
              ''2024-05-01'' (JStr ''sheet'') (Some demo_retail) demo_inventory))"
    using run_demo_retail by (simp add: run_demo_def)
  have u: "Update (Cell ''Inventory'' CHR ''F'' 2) [[JStr ''7'']] \<in> set (fst (run_demo demo_retail))"
    by (simp add: run_demo_retail)
  from sale_total_is_rounded_product [OF m] m u show ?thesis
    by (simp add: run_demo_def)
qed

section \<open>The applied price\<close>

lemma sale_row_in_single_trace:
  assumes single: "bulkItems s = None \<or> bulkItems s = Some []"
    and mem: "Append ''Sales'' saleRow \<in> set (fst (recordSale rt now today sid (Some s) vals))"
  shows "\<exists>i q. find_item_row rt vals (itemId s) = Some i
           \<and> saleRow = single_sale_row rt now today s (vals ! i) (Some q)"
proof -
  have sid: "truthy rt sid"
  proof (rule ccontr)
    assume "\<not> truthy rt sid"
    then have "recordSale rt now today sid (Some s) vals = ([], Inl MissingRequiredFields)"
      by (simp add: recordSale_def)
    with mem show False by simp
  qed
  note rs = recordSale_single [OF sid single, of now today vals]
  from single_sale_cases [of rt now today s vals] show ?thesis
  proof
    assume "fst (single_sale rt now today s vals) = [] \<and> (\<exists>e. snd (single_sale rt now today s vals) = Inl e)"
    with rs mem show ?thesis by (auto simp: ensured_def)
  next
    assume "\<exists>i q. find_item_row rt vals (itemId s) = Some i
          \<and> parseInt rt (js_or rt (quantitySold s) (lit0 rt)) = Some q \<and> 0 < q
          \<and> \<not> qty_gt (Some q) (existing_qty rt (vals ! i))
          \<and> single_sale rt now today s vals =
              (single_records rt now today s (vals ! i) (Some q)
                 @ [qty_update i (qty_sub (existing_qty rt (vals ! i)) (Some q))],
               Inr (SaleOkQty now (qty_sub (existing_qty rt (vals ! i)) (Some q))))"
    then obtain i q where f: "find_item_row rt vals (itemId s) = Some i"
      and eq: "single_sale rt now today s vals =
              (single_records rt now today s (vals ! i) (Some q)
                 @ [qty_update i (qty_sub (existing_qty rt (vals ! i)) (Some q))],
               Inr (SaleOkQty now (qty_sub (existing_qty rt (vals ! i)) (Some q))))"
      by blast
    from mem rs eq have "saleRow = single_sale_row rt now today s (vals ! i) (Some q)"
      by (auto simp: ensured_def single_records_def qty_update_def split: if_splits)
    with f show ?thesis by blast
  qed
qed

text \<open>
  Claim C5, as the code has it. In a single-item sale the price written to the sale row
  (and used for its total) is \<open>parseFloat\<close> of the first truthy value among the
  request's applied price, the request's price per unit and the item's Price cell, and of
  the literal \<open>0\<close> when none is truthy; an unparsable or zero result counts as
  \<open>0\<close>. A value that is present but falsy (the number \<open>0\<close>, the empty string,
  \<open>null\<close>, \<open>false\<close>) is passed over like an absent one.
\<close>

theorem applied_price_first_truthy:
  assumes "bulkItems s = None \<or> bulkItems s = Some []"
    and "Append ''Sales'' saleRow \<in> set (fst (recordSale rt now today sid (Some s) vals))"
  shows "\<exists>i. find_item_row rt vals (itemId s) = Some i
          \<and> cell_at saleRow 5 = JNum (num_or0 rt (parseFloat rt
               (if truthy rt (appliedPrice s) then appliedPrice s
                else if truthy rt (pricePerUnit s) then pricePerUnit s
                else if truthy rt (cell_at (vals ! i) 6) then cell_at (vals ! i) 6
                else lit0 rt)))
          \<and> total_reconciles rt saleRow"
proof -
  from sale_row_in_single_trace [OF assms] obtain i q where
    f: "find_item_row rt vals (itemId s) = Some i"
    and row: "saleRow = single_sale_row rt now today s (vals ! i) (Some q)"
    by blast
  have price: "cell_at saleRow 5 = JNum (single_price rt s (vals ! i))"
    unfolding row by (simp add: single_sale_row_def cell_at_def)
  have sel: "single_price rt s (vals ! i) = num_or0 rt (parseFloat rt
               (if truthy rt (appliedPrice s) then appliedPrice s
                else if truthy rt (pricePerUnit s) then pricePerUnit s
                else if truthy rt (cell_at (vals ! i) 6) then cell_at (vals ! i) 6
                else lit0 rt))"
    by (simp add: single_price_def js_or_def)
  have tot: "total_reconciles rt saleRow"
    unfolding row by (rule single_row_reconciles)
  from f price sel tot show ?thesis by simp
qed

lemma run_demo_zero_price:
  "run_demo (demo_retail\<lparr>appliedPrice := JNum (Some 0), pricePerUnit := JNum (Some 45)\<rparr>) =
     (ensured @
      [Append ''Sales'' [JStr ''1700000000000'', JStr ''101'', JStr ''Cloud'', JStr ''Juice'',
         JNum (Some 3), JNum (Some 45), JStr ''135.00'', JStr ''2024-05-01'', JStr [],
         JStr ''retail'', JStr ''Cash'', JStr []],
       Update (Cell ''Inventory'' CHR ''F'' 2) [[JStr ''7'']]],
      Inr (SaleOkQty ''1700000000000'' (Some 7)))"
  by code_simp

text \<open>
  Claim C5 as stated fails when the explicit applied price is present and is zero: the
  request below carries \<open>appliedPrice: 0\<close> and \<open>pricePerUnit: 45\<close>, and the sale row
  is written with the price 45 and the total 135.00.
\<close>

theorem applied_price_zero_counterexample:
  "appliedPrice (demo_retail\<lparr>appliedPrice := JNum (Some 0), pricePerUnit := JNum (Some 45)\<rparr>)
     = JNum (Some 0)
   \<and> fst (run_demo (demo_retail\<lparr>appliedPrice := JNum (Some 0), pricePerUnit := JNum (Some 45)\<rparr>)) ! 2
     = Append ''Sales'' [JStr ''1700000000000'', JStr ''101'', JStr ''Cloud'', JStr ''Juice'',
         JNum (Some 3), JNum (Some 45), JStr ''135.00'', JStr ''2024-05-01'', JStr [],
         JStr ''retail'', JStr ''Cash'', JStr []]"
  by (simp add: run_demo_zero_price ensured_def)

theorem applied_price_first_truthy_witness:
  "find_item_row int_runtime demo_inventory (itemId demo_retail) = Some 1
   \<and> cell_at [JStr ''1700000000000'', JStr ''101'', JStr ''Cloud'', JStr ''Juice'',
         JNum (Some 3), JNum (Some 50), JStr ''150.00'', JStr ''2024-05-01'', JStr [],
         JStr ''retail'', JStr ''Cash'', JStr []] 5
      = JNum (num_or0 int_runtime (parseFloat int_runtime (cell_at (demo_inventory ! 1) 6)))"
proof -
  let ?row = "[JStr ''1700000000000'', JStr ''101'', JStr ''Cloud'', JStr ''Juice'',
         JNum (Some 3), JNum (Some 50), JStr ''150.00'', JStr ''2024-05-01'', JStr [],
         JStr ''retail'', JStr ''Cash'', JStr []] :: qty row"
  have single: "bulkItems demo_retail = None \<or> bulkItems demo_retail = Some []"
    by (simp add: demo_retail_def no_sale_def)
  have m: "Append ''Sales'' ?row \<in> set (fst (recordSale int_runtime ''1700000000000''
              ''2024-05-01'' (JStr ''sheet'') (Some demo_retail) demo_inventory))"
    using run_demo_retail by (simp add: run_demo_def)
  have f: "find_item_row int_runtime demo_inventory (itemId demo_retail) = Some 1"
    by code_simp
  have t1: "\<not> truthy int_runtime (appliedPrice demo_retail)"
    and t2: "\<not> truthy int_runtime (pricePerUnit demo_retail)"
    by (simp_all add: demo_retail_def no_sale_def)
  have t3: "truthy int_runtime (cell_at (demo_inventory ! 1) 6)"
    by code_simp
  from applied_price_first_truthy [OF single m] f t1 t2 t3 show ?thesis by simp
qed

section \<open>Bulk sales\<close>

lemma bulk_loop_stops:
  assumes "find_item_row rt vals (bi_itemId b) = Some i"
    and "qty_gt (parseInt rt (js_or rt (bi_qty b) (lit0 rt))) (existing_qty rt (vals ! i))"
  shows "bulk_loop rt vals (b # post) =
           ([], Some (InsufficientStockFor (to_string rt (cell_at (vals ! i) 2))
                                            (to_string rt (cell_at (vals ! i) 4))), vals)"
  using assms by (simp add: Let_def)

lemma bulk_loop_only_updates: "\<forall>x\<in>set (fst (bulk_loop rt vals items)). is_update x"
proof
  fix x assume "x \<in> set (fst (bulk_loop rt vals items))"
  then obtain n k where "x = qty_update n k"
    using bulk_loop_effects by blast
  then show "is_update x" by (simp add: qty_update_def)
qed

text \<open>
  Claim C7. A bulk request first appends its one sale row, \<open>Append Sales\<close> of the
  row built from the request, and, when the payment method is \<open>Loan\<close>, its one loan
  row, \<open>Append Loans\<close> of the row for the same sale and total with the status
  \<open>Unpaid\<close>; the range updates of the run are exactly what follows them. When the
  lines before some line went through and that line asks for more than the item's
  current stock in the progressively updated table, the handler throws the
  insufficient-stock error for that item: the run then consists of the two appended rows
  and the quantity updates of the earlier lines, and nothing is written for the offending
  line or the lines after it.
\<close>

theorem bulk_records_first_no_rollback:
  assumes "truthy rt sid" and "bulkItems s = Some items" and "items \<noteq> []"
  shows "(\<exists>ws. fst (recordSale rt now today sid (Some s) vals)
                 = ensured @ Append ''Sales'' (bulk_sale_row rt now today s (length items))
                     # (if paymentMethod s = JStr ''Loan''
                        then [Append ''Loans'' (bulk_loan_row rt now today s (length items))] else [])
                     @ ws
              \<and> (\<forall>x\<in>set ws. is_update x)
              \<and> filter is_update (fst (recordSale rt now today sid (Some s) vals)) = ws)
       \<and> cell_at (bulk_sale_row rt now today s (length items)) 0 = JStr now
       \<and> cell_at (bulk_sale_row rt now today s (length items)) 1 = JStr ''BULK''
       \<and> cell_at (bulk_sale_row rt now today s (length items)) 6
            = JStr (sale_total rt (bulk_price rt s) (bulk_sell_qty rt s))
       \<and> cell_at (bulk_loan_row rt now today s (length items)) 1 = JStr now
       \<and> cell_at (bulk_loan_row rt now today s (length items)) 4
            = JStr (sale_total rt (bulk_price rt s) (bulk_sell_qty rt s))
       \<and> cell_at (bulk_loan_row rt now today s (length items)) 7 = JStr ''Unpaid''
       \<and> (\<forall>pre b post effs vals' i.
             items = pre @ b # post
             \<and> bulk_loop rt vals pre = (effs, None, vals')
             \<and> find_item_row rt vals' (bi_itemId b) = Some i
             \<and> qty_gt (parseInt rt (js_or rt (bi_qty b) (lit0 rt))) (existing_qty rt (vals' ! i))
             \<longrightarrow> recordSale rt now today sid (Some s) vals =
                   (ensured @ Append ''Sales'' (bulk_sale_row rt now today s (length items))
                      # (if paymentMethod s = JStr ''Loan''
                         then [Append ''Loans'' (bulk_loan_row rt now today s (length items))] else [])
                      @ effs,
                    Inl (InsufficientStockFor (to_string rt (cell_at (vals' ! i) 2))
                                              (to_string rt (cell_at (vals' ! i) 4)))))"
proof -
  note rb = recordSale_bulk [OF assms, of now today vals]
  have first: "\<exists>ws. fst (recordSale rt now today sid (Some s) vals)
                 = ensured @ Append ''Sales'' (bulk_sale_row rt now today s (length items))
                     # (if paymentMethod s = JStr ''Loan''
                        then [Append ''Loans'' (bulk_loan_row rt now today s (length items))] else [])
                     @ ws
              \<and> (\<forall>x\<in>set ws. is_update x)
              \<and> filter is_update (fst (recordSale rt now today sid (Some s) vals)) = ws"
  proof -
    note tr = bulk_trace [OF assms, of now today vals]
    note ups = bulk_loop_only_updates [of rt vals items]
    have "filter is_update (fst (bulk_loop rt vals items)) = fst (bulk_loop rt vals items)"
      using ups by (simp add: filter_id_conv)
    then have "filter is_update (fst (recordSale rt now today sid (Some s) vals))
                 = fst (bulk_loop rt vals items)"
      unfolding tr by (simp add: ensured_def)
    with tr ups show ?thesis by blast
  qed
  have abort: "recordSale rt now today sid (Some s) vals =
                   (ensured @ Append ''Sales'' (bulk_sale_row rt now today s (length items))
                      # (if paymentMethod s = JStr ''Loan''
                         then [Append ''Loans'' (bulk_loan_row rt now today s (length items))] else [])
                      @ effs,
                    Inl (InsufficientStockFor (to_string rt (cell_at (vals' ! i) 2))
                                              (to_string rt (cell_at (vals' ! i) 4))))"
    if split: "items = pre @ b # post"
      and pre: "bulk_loop rt vals pre = (effs, None, vals')"
      and found: "find_item_row rt vals' (bi_itemId b) = Some i"
      and over: "qty_gt (parseInt rt (js_or rt (bi_qty b) (lit0 rt))) (existing_qty rt (vals' ! i))"
    for pre b post effs vals' i
  proof -
    have "bulk_loop rt vals items =
            (effs, Some (InsufficientStockFor (to_string rt (cell_at (vals' ! i) 2))
                                               (to_string rt (cell_at (vals' ! i) 4))), vals')"
      unfolding split bulk_loop_app [OF pre] bulk_loop_stops [OF found over] by simp
    then show ?thesis using rb by (simp add: bulk_sale_eq bulk_records_def)
  qed
  from first abort bulk_row_cells [of rt now today s "length items"] show ?thesis by blast
qed

theorem bulk_records_first_no_rollback_witness:
  "bulk_loop int_runtime demo_inventory [line ''101'' 3]
     = ([Update (Cell ''Inventory'' CHR ''F'' 2) [[JStr ''7'']]], None, demo_inventory_after_101)
   \<and> run_demo ((demo_bulk [line ''101'' 3, line ''102'' 5])\<lparr>paymentMethod := JStr ''Loan''\<rparr>) =
       (ensured @
        Append ''Sales'' [JStr ''1700000000000'', JStr ''BULK'', JStr ''Bulk Sale (2 flavors)'',
          JStr ''Bulk'', JNum (Some 5), JNum (Some 50), JStr ''250.00'', JStr ''2024-05-01'',
          JStr [], JStr ''bulk'', JStr ''Loan'', JStr []]
        # [Append ''Loans'' [JStr ''LOAN-1700000000000'', JStr ''1700000000000'',
            JStr ''Unknown Customer'', JStr ''Bulk Sale (2 flavors)'', JStr ''250.00'',
            JStr ''2024-05-01'', JStr [], JStr ''Unpaid'', JStr [], JStr []]]
        @ [Update (Cell ''Inventory'' CHR ''F'' 2) [[JStr ''7'']]],
        Inl (InsufficientStockFor ''Cloud'' ''Grape''))"
proof -
  let ?s = "(demo_bulk [line ''101'' 3, line ''102'' 5])\<lparr>paymentMethod := JStr ''Loan''\<rparr>"
  have h1: "truthy int_runtime (JStr ''sheet'')" by simp
  have h2: "bulkItems ?s = Some [line ''101'' 3, line ''102'' 5]"
    by (simp add: demo_bulk_def no_sale_def)
  have h3: "[line ''101'' 3, line ''102'' 5] \<noteq> []" by simp
  have split: "[line ''101'' 3, line ''102'' 5] = [line ''101'' 3] @ line ''102'' 5 # []" by simp
  have pre: "bulk_loop int_runtime demo_inventory [line ''101'' 3]
     = ([Update (Cell ''Inventory'' CHR ''F'' 2) [[JStr ''7'']]], None, demo_inventory_after_101)"
    by code_simp
  have found: "find_item_row int_runtime demo_inventory_after_101 (bi_itemId (line ''102'' 5)) = Some 2"
    by code_simp
  have over: "qty_gt (parseInt int_runtime (js_or int_runtime (bi_qty (line ''102'' 5)) (lit0 int_runtime)))
                 (existing_qty int_runtime (demo_inventory_after_101 ! 2))"
    by code_simp
  have name: "to_string int_runtime (cell_at (demo_inventory_after_101 ! 2) 2) = ''Cloud''"
    and flavor: "to_string int_runtime (cell_at (demo_inventory_after_101 ! 2) 4) = ''Grape''"
    by code_simp+
  have len: "length [line ''101'' 3, line ''102'' 5] = 2" by simp
  have pm: "(paymentMethod ?s = JStr ''Loan'') = True" by (simp add: demo_bulk_def no_sale_def)
  have saleRow: "bulk_sale_row int_runtime ''1700000000000'' ''2024-05-01'' ?s 2 =
        [JStr ''1700000000000'', JStr ''BULK'', JStr ''Bulk Sale (2 flavors)'',
          JStr ''Bulk'', JNum (Some 5), JNum (Some 50), JStr ''250.00'', JStr ''2024-05-01'',
          JStr [], JStr ''bulk'', JStr ''Loan'', JStr []]"
    by code_simp
  have loanRow: "bulk_loan_row int_runtime ''1700000000000'' ''2024-05-01'' ?s 2 =
        [JStr ''LOAN-1700000000000'', JStr ''1700000000000'',
            JStr ''Unknown Customer'', JStr ''Bulk Sale (2 flavors)'', JStr ''250.00'',
            JStr ''2024-05-01'', JStr [], JStr ''Unpaid'', JStr [], JStr []]"
    by code_simp
  note inst = bulk_records_first_no_rollback
    [OF h1 h2 h3, of "''1700000000000''" "''2024-05-01''" demo_inventory, unfolded len]
  have m0: "recordSale int_runtime ''1700000000000'' ''2024-05-01'' (JStr ''sheet'') (Some ?s) demo_inventory =
          (ensured @ Append ''Sales'' (bulk_sale_row int_runtime ''1700000000000'' ''2024-05-01'' ?s 2)
             # (if paymentMethod ?s = JStr ''Loan''
                then [Append ''Loans'' (bulk_loan_row int_runtime ''1700000000000'' ''2024-05-01'' ?s 2)]
                else [])
             @ [Update (Cell ''Inventory'' CHR ''F'' 2) [[JStr ''7'']]],
           Inl (InsufficientStockFor (to_string int_runtime (cell_at (demo_inventory_after_101 ! 2) 2))
                                     (to_string int_runtime (cell_at (demo_inventory_after_101 ! 2) 4))))"
    using inst split pre found over by blast
  have main: "recordSale int_runtime ''1700000000000'' ''2024-05-01'' (JStr ''sheet'') (Some ?s) demo_inventory =
       (ensured @
        Append ''Sales'' [JStr ''1700000000000'', JStr ''BULK'', JStr ''Bulk Sale (2 flavors)'',
          JStr ''Bulk'', JNum (Some 5), JNum (Some 50), JStr ''250.00'', JStr ''2024-05-01'',
          JStr [], JStr ''bulk'', JStr ''Loan'', JStr []]
        # [Append ''Loans'' [JStr ''LOAN-1700000000000'', JStr ''1700000000000'',
            JStr ''Unknown Customer'', JStr ''Bulk Sale (2 flavors)'', JStr ''250.00'',
            JStr ''2024-05-01'', JStr [], JStr ''Unpaid'', JStr [], JStr []]]
        @ [Update (Cell ''Inventory'' CHR ''F'' 2) [[JStr ''7'']]],
        Inl (InsufficientStockFor ''Cloud'' ''Grape''))"
    using m0 unfolding name flavor saleRow loanRow pm if_True .
  from pre main show ?thesis unfolding run_demo_def by blast
qed


section \<open>Selling more than the stock\<close>






section \<open>Bulk lines with a negative quantity\<close>

text \<open>
  Claim C10. The bulk branch never checks that a line's quantity is positive. For a bulk
  request with one line whose quantity parses to a negative integer \<open>q\<close>, for an item
  found with a quantity \<open>e \<ge> 0\<close>, the stock check passes, the handler answers with
  success, and the quantity it writes to the item's cell is \<open>e + |q|\<close>: the stock
  goes up. A single-item request for a found item with the same quantity sold is
  rejected as invalid.
\<close>

theorem bulk_negative_qty_adds_stock:
  assumes "truthy rt sid"
    and "bulkItems s = Some [b]"
    and "find_item_row rt vals (bi_itemId b) = Some i"
    and "parseInt rt (js_or rt (bi_qty b) (lit0 rt)) = Some q"
    and "q < 0"
    and "existing_qty rt (vals ! i) = Some e"
    and "0 \<le> e"
  shows "recordSale rt now today sid (Some s) vals =
           (ensured @ bulk_records rt now today s 1
              @ [Update (Cell ''Inventory'' CHR ''F'' (i + 1)) [[JStr (string_of_qty (Some (e + \<bar>q\<bar>)))]]],
            Inr (SaleOk now))
       \<and> (\<forall>sheet. cell_at (row_at (apply_effects ''Inventory''
                        (fst (recordSale rt now today sid (Some s) vals)) sheet) i) 5
            = JStr (string_of_qty (Some (e + \<bar>q\<bar>))))
       \<and> (\<forall>s' j. (bulkItems s' = None \<or> bulkItems s' = Some []) \<and> truthy rt (itemId s')
              \<and> find_item_row rt vals (itemId s') = Some j
              \<and> parseInt rt (js_or rt (quantitySold s') (lit0 rt)) = Some q
            \<longrightarrow> recordSale rt now today sid (Some s') vals = (ensured, Inl InvalidQuantitySold))"
proof -
  have items: "bulkItems s = Some [b]" "[b] \<noteq> []" using assms(2) by simp_all
  have nogt: "\<not> qty_gt (Some q) (Some e)"
    using assms(5,7) by (simp add: qty_gt_def)
  have sub: "qty_sub (Some e) (Some q) = Some (e + \<bar>q\<bar>)"
    using assms(5) by (simp add: qty_sub_def)
  have loop: "bulk_loop rt vals [b] =
                ([qty_update i (Some (e + \<bar>q\<bar>))], None,
                 vals[i := set_cell (vals ! i) 5 (JStr (string_of_qty (Some (e + \<bar>q\<bar>))))])"
    using nogt sub assms(3,4,6) by (simp add: Let_def)
  have run: "recordSale rt now today sid (Some s) vals =
           (ensured @ bulk_records rt now today s 1 @ [qty_update i (Some (e + \<bar>q\<bar>))],
            Inr (SaleOk now))"
    using recordSale_bulk [OF assms(1) items, of now today vals] loop
    by (simp add: bulk_sale_eq)
  have store: "cell_at (row_at (apply_effects ''Inventory''
                 (fst (recordSale rt now today sid (Some s) vals)) sheet) i) 5
            = JStr (string_of_qty (Some (e + \<bar>q\<bar>)))" for sheet
    unfolding run
    by (simp add: apply_effects_append ensured_changes_nothing bulk_records_other_sheets
          qty_update_lands)
  have single: "recordSale rt now today sid (Some s') vals = (ensured, Inl InvalidQuantitySold)"
    if "bulkItems s' = None \<or> bulkItems s' = Some []" and "truthy rt (itemId s')"
      and "find_item_row rt vals (itemId s') = Some j"
      and "parseInt rt (js_or rt (quantitySold s') (lit0 rt)) = Some q"
    for s' j
  proof -
    have "single_sale rt now today s' vals = ([], Inl InvalidQuantitySold)"
      using that(2-4) assms(5) by (simp add: single_sale_def Let_def)
    then show ?thesis
      using recordSale_single [OF assms(1) that(1), of now today vals] by simp
  qed
  from run store single show ?thesis by (simp add: qty_update_def)
qed

lemma run_demo_negative_line:
  "run_demo (demo_bulk [line ''102'' (- 3)]) =
     (ensured @
      [Append ''Sales'' [JStr ''1700000000000'', JStr ''BULK'', JStr ''Bulk Sale (1 flavors)'',
         JStr ''Bulk'', JNum (Some 5), JNum (Some 50), JStr ''250.00'', JStr ''2024-05-01'',
         JStr [], JStr ''bulk'', JStr ''Cash'', JStr []],
       Update (Cell ''Inventory'' CHR ''F'' 3) [[JStr ''7'']]],
      Inr (SaleOk ''1700000000000''))"
  by code_simp

theorem bulk_negative_qty_adds_stock_witness:
  "existing_qty int_runtime (demo_inventory ! 2) = Some 4
   \<and> run_demo (demo_bulk [line ''102'' (- 3)]) =
       (ensured @ bulk_records int_runtime ''1700000000000'' ''2024-05-01''
                    (demo_bulk [line ''102'' (- 3)]) 1
          @ [Update (Cell ''Inventory'' CHR ''F'' 3) [[JStr ''7'']]],
        Inr (SaleOk ''1700000000000''))
   \<and> run_demo (demo_retail\<lparr>itemId := JStr ''102'', quantitySold := JStr ''-3''\<rparr>)
       = (ensured, Inl InvalidQuantitySold)"
proof -
  let ?s = "demo_bulk [line ''102'' (- 3)]"
  let ?t = "demo_retail\<lparr>itemId := JStr ''102'', quantitySold := JStr ''-3''\<rparr>"
  have h1: "truthy int_runtime (JStr ''sheet'')" by simp
  have h2: "bulkItems ?s = Some [line ''102'' (- 3)]" by (simp add: demo_bulk_def no_sale_def)
  have h3: "find_item_row int_runtime demo_inventory (bi_itemId (line ''102'' (- 3))) = Some 2"
    by code_simp
  have h4: "parseInt int_runtime (js_or int_runtime (bi_qty (line ''102'' (- 3))) (lit0 int_runtime))
              = Some (- 3)"
    by code_simp
  have h5: "(- 3 :: int) < 0" by simp
  have h6: "existing_qty int_runtime (demo_inventory ! 2) = Some 4" by code_simp
  have h7: "(0::int) \<le> 4" by simp
  have s7: "string_of_qty (Some (4 + \<bar>- 3\<bar>)) = ''7''" by code_simp
  have three: "(2::nat) + 1 = 3" by simp
  have t1: "bulkItems ?t = None \<or> bulkItems ?t = Some []" by (simp add: demo_retail_def no_sale_def)
  have t2: "truthy int_runtime (itemId ?t)" by simp
  have t3: "find_item_row int_runtime demo_inventory (itemId ?t) = Some 2" by code_simp
  have t4: "parseInt int_runtime (js_or int_runtime (quantitySold ?t) (lit0 int_runtime)) = Some (- 3)"
    by code_simp
  note inst = bulk_negative_qty_adds_stock
    [OF h1 h2 h3 h4 h5 h6 h7, of "''1700000000000''" "''2024-05-01''", unfolded s7 three]
  from inst have bulk: "recordSale int_runtime ''1700000000000'' ''2024-05-01'' (JStr ''sheet'')
                          (Some ?s) demo_inventory =
       (ensured @ bulk_records int_runtime ''1700000000000'' ''2024-05-01'' ?s 1
          @ [Update (Cell ''Inventory'' CHR ''F'' 3) [[JStr ''7'']]],
        Inr (SaleOk ''1700000000000''))"
    by (rule conjunct1)
  from inst t1 t2 t3 t4 have single: "recordSale int_runtime ''1700000000000'' ''2024-05-01''
                          (JStr ''sheet'') (Some ?t) demo_inventory = (ensured, Inl InvalidQuantitySold)"
    by blast
  from h6 bulk single show ?thesis unfolding run_demo_def by blast
qed

section \<open>Warranty claims\<close>

lemma getItemById_index:
  "getItemById items w = Some product \<Longrightarrow>
     \<exists>idx. findIndex_id items w k = Some (k + idx) \<and> idx < length items \<and> items ! idx = product"
proof (induction items arbitrary: k)
  case Nil
  then show ?case by (simp add: getItemById_def)
next
  case (Cons r rs)
  show ?case
  proof (cases "cell_at r 0 = JStr w")
    case True
    with Cons.prems have "product = r" by (simp add: getItemById_def)
    with True show ?thesis by auto
  next
    case False
    with Cons.prems have "getItemById rs w = Some product" by (simp add: getItemById_def)
    from Cons.IH [OF this, of "Suc k"] obtain idx where
      "findIndex_id rs w (Suc k) = Some (Suc k + idx)" "idx < length rs" "rs ! idx = product"
      by blast
    with False have "findIndex_id (r # rs) w k = Some (k + Suc idx) \<and> Suc idx < length (r # rs)
        \<and> (r # rs) ! Suc idx = product" by simp
    then show ?thesis by blast
  qed
qed

lemma processClaim_found:
  assumes "getItemById items (cd_itemId c) = Some product"
  shows "(current_qty rt product < replace_qty rt c \<longrightarrow>
            processClaim rt now c items =
              ([], Inl (InsufficientInventory (current_qty rt product) (replace_qty rt c)), items))
       \<and> (replace_qty rt c \<le> current_qty rt product \<longrightarrow>
            (\<exists>idx. idx < length items \<and> items ! idx = product
               \<and> processClaim rt now c items =
                   ([Append ''Warranty'' (claim_row rt now c product),
                     Update (RowSpan ''Inventory'' CHR ''A'' CHR ''J'' (idx + 2))
                       [item_row rt (cd_itemId c) (quantity_data product
                          (JNum (rt_num_of_int rt (Some (current_qty rt product - replace_qty rt c)))))]],
                    Inr (ClaimOk now (claim_message (replace_qty rt c))),
                    items[idx := item_row rt (cd_itemId c) (quantity_data product
                          (JNum (rt_num_of_int rt (Some (current_qty rt product - replace_qty rt c)))))])))"
proof (intro conjI impI)
  assume "current_qty rt product < replace_qty rt c"
  with assms show "processClaim rt now c items =
              ([], Inl (InsufficientInventory (current_qty rt product) (replace_qty rt c)), items)"
    by (simp add: processClaim_def Let_def)
next
  assume le: "replace_qty rt c \<le> current_qty rt product"
  from getItemById_index [OF assms, of 0] obtain idx where
    idx: "findIndex_id items (cd_itemId c) 0 = Some idx" "idx < length items" "items ! idx = product"
    by auto
  have "processClaim rt now c items =
                   ([Append ''Warranty'' (claim_row rt now c product),
                     Update (RowSpan ''Inventory'' CHR ''A'' CHR ''J'' (idx + 2))
                       [item_row rt (cd_itemId c) (quantity_data product
                          (JNum (rt_num_of_int rt (Some (current_qty rt product - replace_qty rt c)))))]],
                    Inr (ClaimOk now (claim_message (replace_qty rt c))),
                    items[idx := item_row rt (cd_itemId c) (quantity_data product
                          (JNum (rt_num_of_int rt (Some (current_qty rt product - replace_qty rt c)))))])"
    using assms le idx(1)
    by (simp add: processClaim_def Let_def updateQuantity_def updateItem_def)
  with idx(2,3) show "\<exists>idx. idx < length items \<and> items ! idx = product
               \<and> processClaim rt now c items =
                   ([Append ''Warranty'' (claim_row rt now c product),
                     Update (RowSpan ''Inventory'' CHR ''A'' CHR ''J'' (idx + 2))
                       [item_row rt (cd_itemId c) (quantity_data product
                          (JNum (rt_num_of_int rt (Some (current_qty rt product - replace_qty rt c)))))]],
                    Inr (ClaimOk now (claim_message (replace_qty rt c))),
                    items[idx := item_row rt (cd_itemId c) (quantity_data product
                          (JNum (rt_num_of_int rt (Some (current_qty rt product - replace_qty rt c)))))])"
    by blast
qed

section \<open>Facts about runs that end in an error\<close>

lemma bulk_loop_error_kind:
  "fst (snd (bulk_loop rt vals items)) = Some e \<Longrightarrow> \<exists>a b. e = InsufficientStockFor a b"
proof (induction items arbitrary: vals)
  case Nil
  then show ?case by simp
next
  case (Cons b bs)
  show ?case
  proof (cases "find_item_row rt vals (bi_itemId b)")
    case None
    with Cons show ?thesis by simp
  next
    case (Some i)
    show ?thesis
    proof (cases "qty_gt (parseInt rt (js_or rt (bi_qty b) (lit0 rt))) (existing_qty rt (vals ! i))")
      case True
      with Some Cons.prems show ?thesis by (auto simp: Let_def)
    next
      case False
      let ?nq = "qty_sub (existing_qty rt (vals ! i)) (parseInt rt (js_or rt (bi_qty b) (lit0 rt)))"
      let ?vals = "vals[i := set_cell (vals ! i) 5 (JStr (string_of_qty ?nq))]"
      from Some False Cons.prems have "fst (snd (bulk_loop rt ?vals bs)) = Some e"
        by (auto simp: Let_def split: prod.splits)
      then show ?thesis by (rule Cons.IH)
    qed
  qed
qed

lemma insufficient_stock_trace:
  assumes "snd (recordSale rt now today sid so vals) = Inl InsufficientStock"
  shows "fst (recordSale rt now today sid so vals) = ensured"
proof (cases "so = None \<or> \<not> truthy rt sid")
  case True
  with assms show ?thesis using recordSale_missing [of so rt sid now today vals] by simp
next
  case False
  then obtain s where so: "so = Some s" and sid: "truthy rt sid" by auto
  show ?thesis
  proof (cases "bulkItems s = None \<or> bulkItems s = Some []")
    case True
    note rs = recordSale_single [OF sid True, of now today vals]
    from single_sale_cases [of rt now today s vals] assms rs so show ?thesis by auto
  next
    case False
    then obtain items where items: "bulkItems s = Some items" "items \<noteq> []" by auto
    note rb = recordSale_bulk [OF sid items, of now today vals]
    from assms rb so have "fst (snd (bulk_loop rt vals items)) = Some InsufficientStock"
      by (auto simp: bulk_sale_eq split: option.splits)
    from bulk_loop_error_kind [OF this] show ?thesis by simp
  qed
qed

lemma recordSale_updates:
  assumes "x \<in> set (fst (recordSale rt now today sid so vals))" and "is_update x"
  shows "\<exists>n k. x = Update (Cell ''Inventory'' CHR ''F'' n) [[JStr (string_of_qty k)]] \<and> nonneg_qty k"
proof -
  from recordSale_trace [of rt now today sid so vals] show ?thesis
  proof
    assume "(fst (recordSale rt now today sid so vals) = [] \<or> fst (recordSale rt now today sid so vals) = ensured)
      \<and> (\<exists>e. snd (recordSale rt now today sid so vals) = Inl e)"
    with assms show ?thesis by (auto simp: ensured_def)
  next
    assume "\<exists>s row lr ws. so = Some s
        \<and> fst (recordSale rt now today sid so vals) =
            ensured @ Append ''Sales'' row
              # (if paymentMethod s = JStr ''Loan'' then [Append ''Loans'' lr] else []) @ ws
        \<and> total_reconciles rt row \<and> loan_matches_sale lr row
        \<and> (\<forall>x\<in>set ws. \<exists>n k. x = qty_update n k \<and> nonneg_qty k)"
    then obtain s row lr ws where so: "so = Some s"
      and tr: "fst (recordSale rt now today sid so vals) =
            ensured @ Append ''Sales'' row
              # (if paymentMethod s = JStr ''Loan'' then [Append ''Loans'' lr] else []) @ ws"
      and ws: "\<forall>x\<in>set ws. \<exists>n k. x = qty_update n k \<and> nonneg_qty k"
      by blast
    from assms tr have "x \<in> set ws"
      by (auto simp: ensured_def split: if_splits)
    with ws obtain n k where "x = qty_update n k" "nonneg_qty k" by blast
    then show ?thesis by (auto simp: qty_update_def)
  qed
qed

lemma processClaim_updates:
  assumes "x \<in> set (fst (processClaim rt now c items))" and "is_update x"
  shows "\<exists>n r m. x = Update (RowSpan ''Inventory'' CHR ''A'' CHR ''J'' n) [r]
            \<and> cell_at r 5 = JNum (rt_num_of_int rt (Some m)) \<and> 0 \<le> m"
proof (cases "getItemById items (cd_itemId c)")
  case None
  with assms show ?thesis by (simp add: processClaim_def)
next
  case (Some product)
  note pf = processClaim_found [OF Some, of rt now]
  show ?thesis
  proof (cases "current_qty rt product < replace_qty rt c")
    case True
    with pf assms show ?thesis by simp
  next
    case False
    let ?m = "current_qty rt product - replace_qty rt c"
    let ?r = "item_row rt (cd_itemId c) (quantity_data product (JNum (rt_num_of_int rt (Some ?m))))"
    from False pf obtain idx where
      "processClaim rt now c items =
         ([Append ''Warranty'' (claim_row rt now c product),
           Update (RowSpan ''Inventory'' CHR ''A'' CHR ''J'' (idx + 2)) [?r]],
          Inr (ClaimOk now (claim_message (replace_qty rt c))), items[idx := ?r])"
      by auto
    with assms have x: "x = Update (RowSpan ''Inventory'' CHR ''A'' CHR ''J'' (idx + 2)) [?r]"
      by auto
    have c5: "cell_at ?r 5 = JNum (rt_num_of_int rt (Some ?m))"
      by (simp add: item_row_def quantity_data_def cell_at_def)
    have "0 \<le> ?m" using False by simp
    with x c5 show ?thesis by blast
  qed
qed

lemma insufficient_inventory_trace:
  assumes "fst (snd (processClaim rt now c items)) = Inl (InsufficientInventory a b)"
  shows "fst (processClaim rt now c items) = []"
proof (cases "getItemById items (cd_itemId c)")
  case None
  then show ?thesis by (simp add: processClaim_def)
next
  case (Some product)
  note pf = processClaim_found [OF Some, of rt now]
  show ?thesis
  proof (cases "current_qty rt product < replace_qty rt c")
    case True
    with pf show ?thesis by simp
  next
    case False
    with pf assms show ?thesis by auto
  qed
qed

section \<open>Warranty claims check the cached stock, then decrement it\<close>

lemma fetchData_row:
  assumes "items = fetchData sheet" and "idx < length items"
  shows "row_at sheet (idx + 1) = items ! idx"
  using assms by (auto simp: fetchData_def row_at_def)

text \<open>
  Claim C9. For a warranty claim whose product is found in the cache, with
  \<open>currentQty = parseInt(product[5]) || 0\<close> read from the cached row and
  \<open>replaceQty = parseInt(quantity) || 0\<close>: when the requested quantity exceeds the
  cached one the claim is rejected with the insufficient-inventory error and no call has
  been made; otherwise the run is exactly one append to the Warranty sheet, of a row with
  that quantity and the status \<open>Completed\<close>, followed by one update of the product's
  own sheet row, whose Quantity cell becomes \<open>currentQty - replaceQty\<close>, and the
  answer is the success message. When the cache holds the data rows of the Inventory
  sheet, the cached row is the sheet's row of the product, so the check is against the
  stored quantity and the stored quantity goes down by exactly the requested quantity.
\<close>

theorem warranty_claim_checks_cached_quantity:
  assumes "getItemById items (cd_itemId c) = Some product"
  shows "(current_qty rt product < replace_qty rt c \<longrightarrow>
            fst (processClaim rt now c items) = []
          \<and> fst (snd (processClaim rt now c items))
              = Inl (InsufficientInventory (current_qty rt product) (replace_qty rt c)))
       \<and> (replace_qty rt c \<le> current_qty rt product \<longrightarrow>
            (\<exists>idx claimRow newRow.
                idx < length items \<and> items ! idx = product
              \<and> fst (processClaim rt now c items) =
                  [Append ''Warranty'' claimRow,
                   Update (RowSpan ''Inventory'' CHR ''A'' CHR ''J'' (idx + 2)) [newRow]]
              \<and> cell_at claimRow 4 = JNum (rt_num_of_int rt (Some (replace_qty rt c)))
              \<and> cell_at claimRow 8 = JStr ''Completed''
              \<and> cell_at newRow 5
                  = JNum (rt_num_of_int rt (Some (current_qty rt product - replace_qty rt c)))
              \<and> (\<forall>sheet. cell_at (row_at (apply_effects ''Inventory''
                                               (fst (processClaim rt now c items)) sheet) (idx + 1)) 5
                  = JNum (rt_num_of_int rt (Some (current_qty rt product - replace_qty rt c))))
              \<and> (\<forall>sheet. items = fetchData sheet \<longrightarrow>
                    row_at sheet (idx + 1) = product
                  \<and> cell_at (row_at (apply_effects ''Inventory''
                                       (fst (processClaim rt now c items)) sheet) (idx + 1)) 5
                      = JNum (rt_num_of_int rt
                          (Some (current_qty rt (row_at sheet (idx + 1)) - replace_qty rt c))))
              \<and> fst (snd (processClaim rt now c items))
                  = Inr (ClaimOk now (claim_message (replace_qty rt c)))))"
proof (intro conjI impI)
  assume lt: "current_qty rt product < replace_qty rt c"
  with processClaim_found [OF assms, of rt now]
  have "processClaim rt now c items =
          ([], Inl (InsufficientInventory (current_qty rt product) (replace_qty rt c)), items)"
    by blast
  then show "fst (processClaim rt now c items) = []"
    and "fst (snd (processClaim rt now c items))
              = Inl (InsufficientInventory (current_qty rt product) (replace_qty rt c))"
    by simp_all
next
  assume le: "replace_qty rt c \<le> current_qty rt product"
  let ?m = "current_qty rt product - replace_qty rt c"
  let ?newRow = "item_row rt (cd_itemId c) (quantity_data product (JNum (rt_num_of_int rt (Some ?m))))"
  let ?claimRow = "claim_row rt now c product"
  from le processClaim_found [OF assms, of rt now] obtain idx where
    idx: "idx < length items" "items ! idx = product"
    and run: "processClaim rt now c items =
         ([Append ''Warranty'' ?claimRow,
           Update (RowSpan ''Inventory'' CHR ''A'' CHR ''J'' (idx + 2)) [?newRow]],
          Inr (ClaimOk now (claim_message (replace_qty rt c))), items[idx := ?newRow])"
    by blast
  have c4: "cell_at ?claimRow 4 = JNum (rt_num_of_int rt (Some (replace_qty rt c)))"
    and c8: "cell_at ?claimRow 8 = JStr ''Completed''"
    by (simp_all add: claim_row_def cell_at_def)
  have len: "length ?newRow = 10" by (simp add: item_row_def)
  have n5: "cell_at ?newRow 5 = JNum (rt_num_of_int rt (Some ?m))"
    by (simp add: item_row_def quantity_data_def cell_at_def)
  have n5': "?newRow ! 5 = JNum (rt_num_of_int rt (Some ?m))"
    by (simp add: item_row_def quantity_data_def)
  have store: "cell_at (row_at (apply_effects ''Inventory''
                   (fst (processClaim rt now c items)) sheet) (idx + 1)) 5
                  = JNum (rt_num_of_int rt (Some ?m))" for sheet
    unfolding run
    by (simp add: apply_effects_Cons apply_effects_Nil col_index_letters row_at_set_row
          cell_at_write_cells len n5')
  have fresh: "row_at sheet (idx + 1) = product
         \<and> cell_at (row_at (apply_effects ''Inventory''
                                       (fst (processClaim rt now c items)) sheet) (idx + 1)) 5
                      = JNum (rt_num_of_int rt
                          (Some (current_qty rt (row_at sheet (idx + 1)) - replace_qty rt c)))"
    if "items = fetchData sheet" for sheet
  proof -
    from fetchData_row [OF that idx(1)] idx(2) have "row_at sheet (idx + 1) = product" by simp
    with store [of sheet] show ?thesis by simp
  qed
  from idx run c4 c8 n5 store fresh
  show "\<exists>idx claimRow newRow.
                idx < length items \<and> items ! idx = product
              \<and> fst (processClaim rt now c items) =
                  [Append ''Warranty'' claimRow,
                   Update (RowSpan ''Inventory'' CHR ''A'' CHR ''J'' (idx + 2)) [newRow]]
              \<and> cell_at claimRow 4 = JNum (rt_num_of_int rt (Some (replace_qty rt c)))
              \<and> cell_at claimRow 8 = JStr ''Completed''
              \<and> cell_at newRow 5
                  = JNum (rt_num_of_int rt (Some (current_qty rt product - replace_qty rt c)))
              \<and> (\<forall>sheet. cell_at (row_at (apply_effects ''Inventory''
                                               (fst (processClaim rt now c items)) sheet) (idx + 1)) 5
                  = JNum (rt_num_of_int rt (Some (current_qty rt product - replace_qty rt c))))
              \<and> (\<forall>sheet. items = fetchData sheet \<longrightarrow>
                    row_at sheet (idx + 1) = product
                  \<and> cell_at (row_at (apply_effects ''Inventory''
                                       (fst (processClaim rt now c items)) sheet) (idx + 1)) 5
                      = JNum (rt_num_of_int rt
                          (Some (current_qty rt (row_at sheet (idx + 1)) - replace_qty rt c))))
              \<and> fst (snd (processClaim rt now c items))
                  = Inr (ClaimOk now (claim_message (replace_qty rt c)))"
    by (intro exI [of _ idx] exI [of _ ?claimRow] exI [of _ ?newRow]) simp
qed

lemma demo_claim_accepted:
  "processClaim int_runtime ''1700000000001'' (demo_claim ''2'') demo_items =
     ([Append ''Warranty'' [JStr ''1700000000001'', JStr ''2024-05-02'', JStr ''102'', JStr ''Cloud'',
         JNum (Some 2), JStr ''leak'', JStr [], JStr [], JStr ''Completed''],
       Update (RowSpan ''Inventory'' CHR ''A'' CHR ''J'' 3)
         [[JStr ''102'', JStr ''Juice'', JStr ''Cloud'', JStr ''v1'', JStr ''Grape'', JNum (Some 2),
           JStr ''50'', JUndefined, JStr [], JStr []]]],
      Inr (ClaimOk ''1700000000001'' ''Warranty claim processed. 2 units replaced.''),
      [map JStr [''101'', ''Juice'', ''Cloud'', ''v1'', ''Mango'', ''10'', ''50''],
       [JStr ''102'', JStr ''Juice'', JStr ''Cloud'', JStr ''v1'', JStr ''Grape'', JNum (Some 2),
           JStr ''50'', JUndefined, JStr [], JStr []]])"
  by code_simp

lemma demo_claim_rejected:
  "processClaim int_runtime ''1700000000001'' (demo_claim ''5'') demo_items =
     ([], Inl (InsufficientInventory 4 5), demo_items)"
  by code_simp

lemma demo_sale_102_run:
  "apply_effects ''Inventory'' (fst (run_demo demo_sale_102)) demo_inventory = demo_inventory_later"
  by code_simp

text \<open>
  With a cache that is behind the sheet the claim's sentence fails. The cache was loaded
  from \<open>demo_inventory\<close> (item 102: 4 in stock); a sale of 3 of item 102 through the
  handler then left 1 in the sheet. A claim for 2 is accepted, although 2 exceeds the
  stored quantity 1, and the sheet's quantity goes from 1 to 2.
\<close>

theorem warranty_claim_stale_cache_counterexample:
  "demo_items = fetchData demo_inventory
   \<and> apply_effects ''Inventory'' (fst (run_demo demo_sale_102)) demo_inventory = demo_inventory_later
   \<and> cell_at (row_at demo_inventory_later 2) 0 = JStr ''102''
   \<and> current_qty int_runtime (row_at demo_inventory_later 2) = 1
   \<and> replace_qty int_runtime (demo_claim ''2'') = 2
   \<and> fst (snd (processClaim int_runtime ''1700000000001'' (demo_claim ''2'') demo_items))
       = Inr (ClaimOk ''1700000000001'' ''Warranty claim processed. 2 units replaced.'')
   \<and> cell_at (row_at (apply_effects ''Inventory''
         (fst (processClaim int_runtime ''1700000000001'' (demo_claim ''2'') demo_items))
         demo_inventory_later) 2) 5 = JNum (Some 2)"
proof -
  have a: "demo_items = fetchData demo_inventory" by (simp add: demo_items_def)
  have b: "cell_at (row_at demo_inventory_later 2) 0 = JStr ''102''" by code_simp
  have c: "current_qty int_runtime (row_at demo_inventory_later 2) = 1" by code_simp
  have d: "replace_qty int_runtime (demo_claim ''2'') = 2" by code_simp
  have e: "fst (snd (processClaim int_runtime ''1700000000001'' (demo_claim ''2'') demo_items))
       = Inr (ClaimOk ''1700000000001'' ''Warranty claim processed. 2 units replaced.'')"
    by (simp only: demo_claim_accepted fst_conv snd_conv)
  have f: "cell_at (row_at (apply_effects ''Inventory''
         (fst (processClaim int_runtime ''1700000000001'' (demo_claim ''2'') demo_items))
         demo_inventory_later) 2) 5 = JNum (Some 2)"
    unfolding demo_claim_accepted fst_conv by code_simp
  from a demo_sale_102_run b c d e f show ?thesis by blast
qed

theorem warranty_claim_checks_cached_quantity_witness:
  "getItemById demo_items ''102''
     = Some (map JStr [''102'', ''Juice'', ''Cloud'', ''v1'', ''Grape'', ''4'', ''50''])
   \<and> fst (processClaim int_runtime ''1700000000001'' (demo_claim ''5'') demo_items) = []
   \<and> fst (snd (processClaim int_runtime ''1700000000001'' (demo_claim ''5'') demo_items))
       = Inl (InsufficientInventory 4 5)
   \<and> (\<exists>claimRow newRow.
        fst (processClaim int_runtime ''1700000000001'' (demo_claim ''2'') demo_items)
          = [Append ''Warranty'' claimRow,
             Update (RowSpan ''Inventory'' CHR ''A'' CHR ''J'' 3) [newRow]]
        \<and> cell_at claimRow 4 = JNum (Some 2) \<and> cell_at claimRow 8 = JStr ''Completed''
        \<and> cell_at newRow 5 = JNum (Some 2))
   \<and> current_qty int_runtime (row_at demo_inventory 2) = 4
   \<and> cell_at (row_at (apply_effects ''Inventory''
         (fst (processClaim int_runtime ''1700000000001'' (demo_claim ''2'') demo_items))
         demo_inventory) 2) 5 = JNum (Some 2)
   \<and> fst (snd (processClaim int_runtime ''1700000000001'' (demo_claim ''2'') demo_items))
       = Inr (ClaimOk ''1700000000001'' (claim_message 2))"
proof -
  let ?p = "map JStr [''102'', ''Juice'', ''Cloud'', ''v1'', ''Grape'', ''4'', ''50''] :: qty row"
  let ?run = "processClaim int_runtime ''1700000000001'' (demo_claim ''2'') demo_items"
  have f5: "getItemById demo_items (cd_itemId (demo_claim ''5'')) = Some ?p" by code_simp
  have f2: "getItemById demo_items (cd_itemId (demo_claim ''2'')) = Some ?p" by code_simp
  have f: "getItemById demo_items ''102'' = Some ?p" by code_simp
  have cur: "current_qty int_runtime ?p = 4" by code_simp
  have r5: "replace_qty int_runtime (demo_claim ''5'') = 5" by code_simp
  have r2: "replace_qty int_runtime (demo_claim ''2'') = 2" by code_simp
  have num: "rt_num_of_int int_runtime = (\<lambda>q. q)" by (simp add: int_runtime_def)
  have sub: "(4::int) - 2 = 2" by simp
  have cache: "demo_items = fetchData demo_inventory" by (simp add: demo_items_def)
  note rej = warranty_claim_checks_cached_quantity [OF f5, of int_runtime "''1700000000001''",
               unfolded cur r5]
  note acc = warranty_claim_checks_cached_quantity [OF f2, of int_runtime "''1700000000001''",
               unfolded cur r2 num sub]
  have lt: "(4::int) < 5" and le: "(2::int) \<le> 4" by simp_all
  from rej lt have a: "fst (processClaim int_runtime ''1700000000001'' (demo_claim ''5'') demo_items) = []
      \<and> fst (snd (processClaim int_runtime ''1700000000001'' (demo_claim ''5'') demo_items))
          = Inl (InsufficientInventory 4 5)"
    by blast
  from acc le obtain idx claimRow newRow where
    tr: "fst ?run = [Append ''Warranty'' claimRow,
                     Update (RowSpan ''Inventory'' CHR ''A'' CHR ''J'' (idx + 2)) [newRow]]"
    and cells: "cell_at claimRow 4 = JNum (Some 2)" "cell_at claimRow 8 = JStr ''Completed''"
               "cell_at newRow 5 = JNum (Some 2)"
    and fresh: "\<forall>sheet. demo_items = fetchData sheet \<longrightarrow>
                    row_at sheet (idx + 1) = ?p
                  \<and> cell_at (row_at (apply_effects ''Inventory'' (fst ?run) sheet) (idx + 1)) 5
                      = JNum (Some (current_qty int_runtime (row_at sheet (idx + 1)) - 2))"
    and ok: "fst (snd ?run) = Inr (ClaimOk ''1700000000001'' (claim_message 2))"
    by blast
  have "idx + 2 = 3" using tr unfolding demo_claim_accepted fst_conv by simp
  then have idx: "idx = 1" by simp
  from fresh cache have s1: "row_at demo_inventory (idx + 1) = ?p"
    and s2: "cell_at (row_at (apply_effects ''Inventory'' (fst ?run) demo_inventory) (idx + 1)) 5
                      = JNum (Some (current_qty int_runtime (row_at demo_inventory (idx + 1)) - 2))"
    by blast+
  have i2: "idx + 1 = 2" using idx by simp
  have b1: "current_qty int_runtime (row_at demo_inventory 2) = 4"
    using s1 cur unfolding i2 by simp
  have b2: "cell_at (row_at (apply_effects ''Inventory'' (fst ?run) demo_inventory) 2) 5 = JNum (Some 2)"
    using s2 unfolding i2 b1 sub .
  have b3: "\<exists>claimRow newRow.
        fst ?run = [Append ''Warranty'' claimRow,
             Update (RowSpan ''Inventory'' CHR ''A'' CHR ''J'' 3) [newRow]]
        \<and> cell_at claimRow 4 = JNum (Some 2) \<and> cell_at claimRow 8 = JStr ''Completed''
        \<and> cell_at newRow 5 = JNum (Some 2)"
    using tr cells \<open>idx + 2 = 3\<close> by simp
  from f a b3 b1 b2 ok show ?thesis by blast
qed


section \<open>No negative quantity is ever written\<close>

text \<open>
  Claim C8, as the code has it. Whatever the request and the table, every range update
  issued by the sale handler writes to an Inventory quantity cell the string form of a
  quantity that is a non-negative integer or NaN (NaN when the stored quantity or a bulk
  line's quantity does not parse), and every range update issued by a warranty claim
  writes a non-negative quantity. A single-item sale that ends in the insufficient-stock
  error has appended and updated nothing, and a warranty claim that ends in the
  insufficient-inventory error has made no call at all. For a bulk sale the rejection
  only precedes the quantity write of the offending line: the sale and loan rows and the
  earlier lines' updates have been issued by then.
\<close>

theorem written_quantities_never_negative:
  "(\<forall>x\<in>set (fst (recordSale rt now today sid so vals)).
      is_update x \<longrightarrow>
        (\<exists>n k. x = Update (Cell ''Inventory'' CHR ''F'' n) [[JStr (string_of_qty k)]] \<and> nonneg_qty k))
   \<and> (\<forall>x\<in>set (fst (processClaim rt now' c items)).
      is_update x \<longrightarrow>
        (\<exists>n r m. x = Update (RowSpan ''Inventory'' CHR ''A'' CHR ''J'' n) [r]
            \<and> cell_at r 5 = JNum (rt_num_of_int rt (Some m)) \<and> 0 \<le> m))
   \<and> (snd (recordSale rt now today sid so vals) = Inl InsufficientStock \<longrightarrow>
        filter is_write (fst (recordSale rt now today sid so vals)) = [])
   \<and> (\<forall>a b. fst (snd (processClaim rt now' c items)) = Inl (InsufficientInventory a b) \<longrightarrow>
        fst (processClaim rt now' c items) = [])"
proof (intro conjI ballI impI allI)
  fix x assume "x \<in> set (fst (recordSale rt now today sid so vals))" "is_update x"
  then show "\<exists>n k. x = Update (Cell ''Inventory'' CHR ''F'' n) [[JStr (string_of_qty k)]] \<and> nonneg_qty k"
    by (rule recordSale_updates)
next
  fix x assume "x \<in> set (fst (processClaim rt now' c items))" "is_update x"
  then show "\<exists>n r m. x = Update (RowSpan ''Inventory'' CHR ''A'' CHR ''J'' n) [r]
            \<and> cell_at r 5 = JNum (rt_num_of_int rt (Some m)) \<and> 0 \<le> m"
    by (rule processClaim_updates)
next
  assume "snd (recordSale rt now today sid so vals) = Inl InsufficientStock"
  then have "fst (recordSale rt now today sid so vals) = ensured"
    by (rule insufficient_stock_trace)
  then show "filter is_write (fst (recordSale rt now today sid so vals)) = []"
    by (simp add: ensured_def)
next
  fix a b assume "fst (snd (processClaim rt now' c items)) = Inl (InsufficientInventory a b)"
  then show "fst (processClaim rt now' c items) = []"
    by (rule insufficient_inventory_trace)
qed

lemma run_demo_oversell:
  "run_demo (demo_retail\<lparr>quantitySold := JStr ''11''\<rparr>) = (ensured, Inl InsufficientStock)"
  by code_simp

theorem written_quantities_never_negative_witness:
  "(\<exists>n k. (Update (Cell ''Inventory'' CHR ''F'' 2) [[JStr ''7'']] :: qty effect)
              = Update (Cell ''Inventory'' CHR ''F'' n) [[JStr (string_of_qty k)]] \<and> nonneg_qty k)
   \<and> (\<exists>n r m. (Update (RowSpan ''Inventory'' CHR ''A'' CHR ''J'' 3)
                   [[JStr ''102'', JStr ''Juice'', JStr ''Cloud'', JStr ''v1'', JStr ''Grape'',
                     JNum (Some 2), JStr ''50'', JUndefined, JStr [], JStr []]] :: qty effect)
              = Update (RowSpan ''Inventory'' CHR ''A'' CHR ''J'' n) [r]
            \<and> cell_at r 5 = JNum (Some m) \<and> 0 \<le> m)
   \<and> filter is_write (fst (run_demo (demo_retail\<lparr>quantitySold := JStr ''11''\<rparr>))) = []
   \<and> fst (processClaim int_runtime ''1700000000001'' (demo_claim ''5'') demo_items) = []"
proof -
  let ?u = "Update (Cell ''Inventory'' CHR ''F'' 2) [[JStr ''7'']] :: qty effect"
  let ?w = "Update (RowSpan ''Inventory'' CHR ''A'' CHR ''J'' 3)
                   [[JStr ''102'', JStr ''Juice'', JStr ''Cloud'', JStr ''v1'', JStr ''Grape'',
                     JNum (Some 2), JStr ''50'', JUndefined, JStr [], JStr []]] :: qty effect"
  have u: "?u \<in> set (fst (recordSale int_runtime ''1700000000000'' ''2024-05-01'' (JStr ''sheet'')
              (Some demo_retail) demo_inventory))" "is_update ?u"
    using run_demo_retail by (simp_all add: run_demo_def)
  have w: "?w \<in> set (fst (processClaim int_runtime ''1700000000001'' (demo_claim ''2'') demo_items))"
      "is_update ?w"
    by (simp_all add: demo_claim_accepted)
  have o: "snd (recordSale int_runtime ''1700000000000'' ''2024-05-01'' (JStr ''sheet'')
              (Some (demo_retail\<lparr>quantitySold := JStr ''11''\<rparr>)) demo_inventory) = Inl InsufficientStock"
    using run_demo_oversell by (simp add: run_demo_def)
  have r: "fst (snd (processClaim int_runtime ''1700000000001'' (demo_claim ''5'') demo_items))
             = Inl (InsufficientInventory 4 5)"
    by (simp add: demo_claim_rejected)
  have idn: "rt_num_of_int int_runtime = (\<lambda>q. q)" by (simp add: int_runtime_def)
  note sale = written_quantities_never_negative
     [of int_runtime "''1700000000000''" "''2024-05-01''" "JStr ''sheet''" "Some demo_retail"
         demo_inventory "''1700000000001''" "demo_claim ''2''" demo_items, unfolded idn]
  note over = written_quantities_never_negative
     [of int_runtime "''1700000000000''" "''2024-05-01''" "JStr ''sheet''"
         "Some (demo_retail\<lparr>quantitySold := JStr ''11''\<rparr>)"
         demo_inventory "''1700000000001''" "demo_claim ''5''" demo_items]
  from sale u have c1: "\<exists>n k. ?u = Update (Cell ''Inventory'' CHR ''F'' n) [[JStr (string_of_qty k)]] \<and> nonneg_qty k"
    by blast
  from sale w have c2: "\<exists>n r m. ?w = Update (RowSpan ''Inventory'' CHR ''A'' CHR ''J'' n) [r]
            \<and> cell_at r 5 = JNum (Some m) \<and> 0 \<le> m"
    by blast
  from over o have c3: "filter is_write (fst (recordSale int_runtime ''1700000000000'' ''2024-05-01''
              (JStr ''sheet'') (Some (demo_retail\<lparr>quantitySold := JStr ''11''\<rparr>)) demo_inventory)) = []"
    by blast
  from over r have c4: "fst (processClaim int_runtime ''1700000000001'' (demo_claim ''5'') demo_items) = []"
    by blast
  from c1 c2 c3 c4 show ?thesis unfolding run_demo_def by blast
qed


lemma run_demo_bulk_loan_short:
  "run_demo ((demo_bulk [line ''101'' 3, line ''102'' 5])\<lparr>paymentMethod := JStr ''Loan''\<rparr>) =
     (ensured @
      [Append ''Sales'' [JStr ''1700000000000'', JStr ''BULK'', JStr ''Bulk Sale (2 flavors)'',
         JStr ''Bulk'', JNum (Some 5), JNum (Some 50), JStr ''250.00'', JStr ''2024-05-01'',
         JStr [], JStr ''bulk'', JStr ''Loan'', JStr []],
       Append ''Loans'' [JStr ''LOAN-1700000000000'', JStr ''1700000000000'',
         JStr ''Unknown Customer'', JStr ''Bulk Sale (2 flavors)'', JStr ''250.00'',
         JStr ''2024-05-01'', JStr [], JStr ''Unpaid'', JStr [], JStr []],
       Update (Cell ''Inventory'' CHR ''F'' 2) [[JStr ''7'']]],
      Inl (InsufficientStockFor ''Cloud'' ''Grape''))"
  by code_simp

text \<open>
  Claim C8 as stated fails for bulk sales in its second half, that the rejection comes
  before any write is issued: in the request below the second line asks for 5 of item
  102, which has 4. The handler rejects it, and by then it has appended the sale row and
  the loan row and has written the first line's new quantity.
\<close>

theorem bulk_rejection_after_writes_counterexample:
  "snd (run_demo ((demo_bulk [line ''101'' 3, line ''102'' 5])\<lparr>paymentMethod := JStr ''Loan''\<rparr>))
     = Inl (InsufficientStockFor ''Cloud'' ''Grape'')
   \<and> filter is_write
       (fst (run_demo ((demo_bulk [line ''101'' 3, line ''102'' 5])\<lparr>paymentMethod := JStr ''Loan''\<rparr>)))
     = [Append ''Sales'' [JStr ''1700000000000'', JStr ''BULK'', JStr ''Bulk Sale (2 flavors)'',
         JStr ''Bulk'', JNum (Some 5), JNum (Some 50), JStr ''250.00'', JStr ''2024-05-01'',
         JStr [], JStr ''bulk'', JStr ''Loan'', JStr []],
       Append ''Loans'' [JStr ''LOAN-1700000000000'', JStr ''1700000000000'',
         JStr ''Unknown Customer'', JStr ''Bulk Sale (2 flavors)'', JStr ''250.00'',
         JStr ''2024-05-01'', JStr [], JStr ''Unpaid'', JStr [], JStr []],
       Update (Cell ''Inventory'' CHR ''F'' 2) [[JStr ''7'']]]
   \<and> filter is_write
       (fst (run_demo ((demo_bulk [line ''101'' 3, line ''102'' 5])\<lparr>paymentMethod := JStr ''Loan''\<rparr>)))
     \<noteq> []"
  by (simp add: run_demo_bulk_loan_short ensured_def)

section \<open>Marking a loan as paid\<close>

lemma findIndex_id_bounds: "findIndex_id rs w k = Some i \<Longrightarrow> k \<le> i \<and> i < k + length rs"
  by (induction rs arbitrary: k) (fastforce split: if_splits)+

lemma findIndex_id_cong:
  "list_all2 (\<lambda>a b. cell_at a 0 = cell_at b 0) rs rs' \<Longrightarrow> findIndex_id rs w k = findIndex_id rs' w k"
  by (induction rs rs' arbitrary: k rule: list_all2_induct) auto

lemma length_set_cell: "length (set_cell r i v) = max (length r) (Suc i)"
  by (auto simp: set_cell_def)

lemma set_cell_same: "i < length r \<Longrightarrow> r ! i = v \<Longrightarrow> set_cell r i v = r"
  using list_update_id [of r i] by (auto simp: set_cell_def)

lemma paid_row_cells:
  "cell_at (paid_row r d) 7 = JStr ''Paid''" "cell_at (paid_row r d) 8 = JStr d"
  "cell_at (paid_row r d) 0 = cell_at r 0"
  by (simp_all add: paid_row_def cell_at_set_cell)

lemma paid_row_again: "paid_row (paid_row r d) d = paid_row r d"
proof -
  let ?r1 = "set_cell (set_cell r 7 (JStr ''Paid'')) 8 (JStr d)"
  have r1: "paid_row r d = ?r1" by (simp add: paid_row_def)
  have len: "9 \<le> length ?r1" by (simp add: length_set_cell)
  have c7: "?r1 ! 7 = JStr ''Paid''"
    using paid_row_cells(1) [of r d] len unfolding r1 by (simp add: cell_at_def)
  have c8: "?r1 ! 8 = JStr d"
    using paid_row_cells(2) [of r d] len unfolding r1 by (simp add: cell_at_def)
  have s7: "set_cell ?r1 7 (JStr ''Paid'') = ?r1"
    using len c7 by (intro set_cell_same) simp_all
  have s8: "set_cell ?r1 8 (JStr d) = ?r1"
    using len c8 by (intro set_cell_same) simp_all
  have "paid_row ?r1 d = set_cell (set_cell ?r1 7 (JStr ''Paid'')) 8 (JStr d)"
    by (simp add: paid_row_def)
  also have "\<dots> = ?r1" by (simp only: s7 s8)
  finally show ?thesis by (simp only: r1)
qed

lemma mark_found:
  assumes "findIndex_id (fetchData sheet) loanId 0 = Some i"
  shows "markLoanAsPaid True d loanId (fetchData sheet) =
           ([Update (RowSpan ''Loans'' CHR ''H'' CHR ''I'' (i + 2)) [[JStr ''Paid'', JStr d]]], Inr True)"
    and "loans_after_mark True d loanId sheet = sheet[Suc i := paid_row (sheet ! Suc i) d]"
    and "Suc i < length sheet"
proof -
  show run: "markLoanAsPaid True d loanId (fetchData sheet) =
           ([Update (RowSpan ''Loans'' CHR ''H'' CHR ''I'' (i + 2)) [[JStr ''Paid'', JStr d]]], Inr True)"
    using assms by (simp add: markLoanAsPaid_def Let_def cell_at_set_cell)
  from findIndex_id_bounds [OF assms] show len: "Suc i < length sheet"
    by (simp add: fetchData_def)
  show "loans_after_mark True d loanId sheet = sheet[Suc i := paid_row (sheet ! Suc i) d]"
    unfolding loans_after_mark_def run using len
    by (simp add: apply_effects_Cons apply_effects_Nil col_index_letters set_row_def row_at_def
          paid_row_def)
qed

lemma fetch_after_mark:
  assumes "Suc i < length sheet"
  shows "fetchData (sheet[Suc i := r]) = (fetchData sheet)[i := r]"
  by (simp add: fetchData_def drop_update_swap)

lemma findIndex_id_update:
  assumes "i < length rs" and "cell_at r 0 = cell_at (rs ! i) 0"
  shows "findIndex_id (rs[i := r]) w k = findIndex_id rs w k"
proof (rule findIndex_id_cong)
  show "list_all2 (\<lambda>a b. cell_at a 0 = cell_at b 0) (rs[i := r]) rs"
    using assms by (auto simp: list_all2_conv_all_nth nth_list_update)
qed

text \<open>
  Claim C6, as the code has it. When the loan is found, a confirmed call succeeds and
  leaves the loan's row with the status \<open>Paid\<close> and the date of that call; the
  loan is found again at the same place, and a second confirmed call succeeds and
  leaves the status \<open>Paid\<close> and the date of the second call. The second call leaves
  the sheet as it was exactly when it is made on the date of the first.
\<close>

theorem mark_paid_twice_keeps_paid_takes_second_date:
  assumes "findIndex_id (fetchData sheet) loanId 0 = Some i"
  shows "let once = loans_after_mark True d1 loanId sheet;
             twice = loans_after_mark True d2 loanId once
         in snd (markLoanAsPaid True d1 loanId (fetchData sheet)) = Inr True
          \<and> findIndex_id (fetchData once) loanId 0 = Some i
          \<and> snd (markLoanAsPaid True d2 loanId (fetchData once)) = Inr True
          \<and> cell_at (fetchData once ! i) 7 = JStr ''Paid''
          \<and> cell_at (fetchData once ! i) 8 = JStr d1
          \<and> cell_at (fetchData twice ! i) 7 = JStr ''Paid''
          \<and> cell_at (fetchData twice ! i) 8 = JStr d2
          \<and> (d2 = d1 \<longrightarrow> twice = once)"
proof -
  let ?r = "sheet ! Suc i"
  let ?once = "loans_after_mark True d1 loanId sheet"
  let ?twice = "loans_after_mark True d2 loanId ?once"
  note first = mark_found [OF assms]
  have len: "Suc i < length sheet" by (rule first(3))
  have ilen: "i < length (fetchData sheet)" using len by (simp add: fetchData_def)
  have fr: "fetchData sheet ! i = ?r" using len by (simp add: fetchData_def)
  have once: "?once = sheet[Suc i := paid_row ?r d1]" by (rule first(2))
  have fonce: "fetchData ?once = (fetchData sheet)[i := paid_row ?r d1]"
    unfolding once using len by (rule fetch_after_mark)
  have found2: "findIndex_id (fetchData ?once) loanId 0 = Some i"
    unfolding fonce using ilen assms by (simp add: findIndex_id_update paid_row_cells fr)
  note second = mark_found [OF found2]
  have once_row: "?once ! Suc i = paid_row ?r d1"
    unfolding once using len by simp
  have twice: "?twice = ?once[Suc i := paid_row (paid_row ?r d1) d2]"
    using second(2) [of d2] by (simp only: once_row)
  have len1: "Suc i < length ?once" by (rule second(3))
  have ftwice: "fetchData ?twice = (fetchData ?once)[i := paid_row (paid_row ?r d1) d2]"
    unfolding twice using len1 by (rule fetch_after_mark)
  have ilen1: "i < length (fetchData ?once)" using len1 by (simp add: fetchData_def)
  have row1: "fetchData ?once ! i = paid_row ?r d1"
    unfolding fonce using ilen by simp
  have row2: "fetchData ?twice ! i = paid_row (paid_row ?r d1) d2"
    unfolding ftwice using ilen1 by simp
  have same: "?twice = ?once" if "d2 = d1"
  proof -
    have "?twice = ?once[Suc i := paid_row (paid_row ?r d1) d1]"
      using twice that by simp
    then have "?twice = ?once[Suc i := paid_row ?r d1]"
      by (simp only: paid_row_again)
    also have "\<dots> = ?once"
      using once_row list_update_id [of ?once "Suc i"] by simp
    finally show ?thesis .
  qed
  have r1: "snd (markLoanAsPaid True d1 loanId (fetchData sheet)) = Inr True"
    by (simp add: first(1))
  have r2: "snd (markLoanAsPaid True d2 loanId (fetchData ?once)) = Inr True"
    by (simp add: second(1))
  have c17: "cell_at (fetchData ?once ! i) 7 = JStr ''Paid''"
    and c18: "cell_at (fetchData ?once ! i) 8 = JStr d1"
    unfolding row1 by (rule paid_row_cells)+
  have c27: "cell_at (fetchData ?twice ! i) 7 = JStr ''Paid''"
    and c28: "cell_at (fetchData ?twice ! i) 8 = JStr d2"
    unfolding row2 by (rule paid_row_cells)+
  from r1 found2 r2 c17 c18 c27 c28 same show ?thesis
    unfolding Let_def by blast
qed

lemma demo_mark_twice:
  "fetchData (loans_after_mark True ''2024-06-02'' ''LOAN-1''
               (loans_after_mark True ''2024-06-01'' ''LOAN-1'' demo_loans)) ! 0
     = map JStr [''LOAN-1'', ''1'', ''Ana'', ''Cloud'', ''150.00'', ''2024-05-01'', '''', ''Paid'', ''2024-06-02'']"
  by code_simp

lemma demo_mark_once:
  "fetchData (loans_after_mark True ''2024-06-01'' ''LOAN-1'' demo_loans) ! 0
     = map JStr [''LOAN-1'', ''1'', ''Ana'', ''Cloud'', ''150.00'', ''2024-05-01'', '''', ''Paid'', ''2024-06-01'']"
  by code_simp

text \<open>
  Claim C6 as stated fails when the second call is made on a later day: the loan below
  is marked paid on 2024-06-01 and again on 2024-06-02, and its Date Paid cell then
  holds 2024-06-02.
\<close>

theorem mark_paid_twice_date_changes_counterexample:
  "cell_at (fetchData (loans_after_mark True ''2024-06-01'' ''LOAN-1'' demo_loans) ! 0) 8
     = JStr ''2024-06-01''
   \<and> cell_at (fetchData (loans_after_mark True ''2024-06-02'' ''LOAN-1''
                 (loans_after_mark True ''2024-06-01'' ''LOAN-1'' demo_loans)) ! 0) 8
     = JStr ''2024-06-02''
   \<and> cell_at (fetchData (loans_after_mark True ''2024-06-02'' ''LOAN-1''
                 (loans_after_mark True ''2024-06-01'' ''LOAN-1'' demo_loans)) ! 0) 8
     \<noteq> cell_at (fetchData (loans_after_mark True ''2024-06-01'' ''LOAN-1'' demo_loans) ! 0) 8
   \<and> snd (markLoanAsPaid True ''2024-06-02'' ''LOAN-1''
            (fetchData (loans_after_mark True ''2024-06-01'' ''LOAN-1'' demo_loans))) = Inr True"
proof -
  have "snd (markLoanAsPaid True ''2024-06-02'' ''LOAN-1''
            (fetchData (loans_after_mark True ''2024-06-01'' ''LOAN-1'' demo_loans))) = Inr True"
    by code_simp
  then show ?thesis by (simp add: demo_mark_once demo_mark_twice cell_at_def)
qed

theorem mark_paid_twice_keeps_paid_takes_second_date_witness:
  "findIndex_id (fetchData demo_loans) ''LOAN-1'' 0 = Some 0
   \<and> cell_at (fetchData (loans_after_mark True ''2024-06-01'' ''LOAN-1''
                 (loans_after_mark True ''2024-06-01'' ''LOAN-1'' demo_loans)) ! 0) 7 = JStr ''Paid''
   \<and> cell_at (fetchData (loans_after_mark True ''2024-06-01'' ''LOAN-1''
                 (loans_after_mark True ''2024-06-01'' ''LOAN-1'' demo_loans)) ! 0) 8 = JStr ''2024-06-01''
   \<and> loans_after_mark True ''2024-06-01'' ''LOAN-1''
        (loans_after_mark True ''2024-06-01'' ''LOAN-1'' demo_loans)
      = loans_after_mark True ''2024-06-01'' ''LOAN-1'' demo_loans"
proof -
  have f: "findIndex_id (fetchData demo_loans) ''LOAN-1'' 0 = Some 0" by code_simp
  note inst = mark_paid_twice_keeps_paid_takes_second_date
    [OF f, of "''2024-06-01''" "''2024-06-01''", unfolded Let_def]
  from f inst show ?thesis by blast
qed

end
